theory Spec2Isabelle
  imports Main "HOL-Library.Log_Nat" "HOL-Library.Multiset"
begin

section \<open>Data model\<close>

text \<open>
  The gamification engine of the practice tracker lives in \<^verbatim>\<open>backend/crud.py\<close>; the rows
  it reads and writes are declared in \<^verbatim>\<open>backend/models.py\<close>. Each ORM class becomes a
  record holding the columns the engine touches. Integer columns are Python integers
  (\<^typ>\<open>int\<close>), nullable columns are options. A calendar date is its proleptic Gregorian
  ordinal (\<^verbatim>\<open>date.toordinal()\<close>), so \<^verbatim>\<open>d - timedelta(days=1)\<close> is \<open>d - 1\<close>; the
  clock reading \<^verbatim>\<open>date.today()\<close> is a parameter \<open>today\<close> of every operation that
  consults it. Of a timestamp the engine reads the calendar date and the hour only.
\<close>

type_synonym date = int

record datetime =
  date_of :: date
  hour :: int

record user =
  uid :: int
  ensemble_id :: "int option"
  streak_count :: int
  total_points :: int
  level :: int
  last_practice_date :: "date option"

record practice_session =
  sid :: int
  user_id :: int
  start_time :: datetime
  duration_minutes :: int
  focus_rating :: "int option"
  progress_rating :: "int option"
  energy_rating :: "int option"
  points_earned :: int

datatype task_status = NOT_STARTED | IN_PROGRESS | READY

record practice_task =
  tid :: int
  estimated_minutes :: int
  total_time_practiced :: int
  practice_count :: int
  status :: task_status
  readiness_score :: rat

record session_task =
  session_id :: int
  task_id :: int
  minutes_spent :: int

record badge =
  badge_user_id :: int
  badge_type :: string

text \<open>
  The store is the five tables the engine reads and writes, each a list of rows in
  insertion order. Free-form text columns (names, notes) and the tables of the
  bookkeeping layer (ensembles, rehearsals, challenges, calendar events, teacher
  notes) are left out: no rule of the engine reads them.
\<close>

record database =
  users :: "user list"
  practice_sessions :: "practice_session list"
  practice_tasks :: "practice_task list"
  session_tasks :: "session_task list"
  badges :: "badge list"

text \<open>The request schemas of \<^verbatim>\<open>backend/schemas.py\<close>.\<close>

record session_task_create =
  create_task_id :: int
  create_minutes_spent :: int

text \<open>
  \<^verbatim>\<open>PracticeSessionCreate\<close>. The optional task list is tested for truthiness only, so
  \<^verbatim>\<open>None\<close> and the empty list are both the empty list here.
\<close>

record practice_session_create =
  create_user_id :: int
  create_start_time :: datetime
  create_duration_minutes :: int
  create_focus_rating :: "int option"
  create_progress_rating :: "int option"
  create_energy_rating :: "int option"
  create_tasks :: "session_task_create list"

text \<open>
  \<^verbatim>\<open>PracticeSessionUpdate\<close> is dumped with \<^verbatim>\<open>exclude_unset=True\<close>: a field is either
  unset (\<open>None\<close>) or set to a value that may itself be null (\<open>Some None\<close>).
\<close>

record practice_session_update =
  update_focus_rating :: "int option option"
  update_progress_rating :: "int option option"
  update_energy_rating :: "int option option"

record leaderboard_entry =
  rank :: int
  entry_user :: user
  weekly_minutes :: int
  weekly_points :: int

record leaderboard =
  entries :: "leaderboard_entry list"
  period_start :: date
  period_end :: date

text \<open>
  Exceptions are values. \<^verbatim>\<open>ValueError\<close> is raised by the code itself;
  \<^verbatim>\<open>AttributeError\<close> is what Python raises when an attribute is read from \<^verbatim>\<open>None\<close>;
  \<^verbatim>\<open>IntegrityError\<close> is what \<^verbatim>\<open>db.commit()\<close> raises when SQLite refuses a statement of
  the flush. An operation returns its outcome together with the store: a raised exception
  leaves the store as of the last \<^verbatim>\<open>db.commit()\<close> that succeeded.
\<close>

datatype error = ValueError string | AttributeError | IntegrityError

section \<open>Store access\<close>

text \<open>
  \<^verbatim>\<open>db.query(T).filter(T.id == k).first()\<close> is the first row with that key. The ORM
  hands out the row as an object; assigning its attributes and committing writes that
  row back (\<open>update_row\<close>), and \<^verbatim>\<open>db.delete\<close> removes it (\<open>delete_row\<close>).
\<close>

fun update_row :: "('r \<Rightarrow> int) \<Rightarrow> 'r \<Rightarrow> 'r list \<Rightarrow> 'r list" where
  "update_row key r [] = []"
| "update_row key r (x # xs) = (if key x = key r then r # xs else x # update_row key r xs)"

fun delete_row :: "('r \<Rightarrow> int) \<Rightarrow> int \<Rightarrow> 'r list \<Rightarrow> 'r list" where
  "delete_row key k [] = []"
| "delete_row key k (x # xs) = (if key x = k then xs else x # delete_row key k xs)"

definition get_user :: "database \<Rightarrow> int \<Rightarrow> user option" where
  "get_user db k = find (\<lambda>u. uid u = k) (users db)"

definition get_practice_session :: "database \<Rightarrow> int \<Rightarrow> practice_session option" where
  "get_practice_session db k = find (\<lambda>s. sid s = k) (practice_sessions db)"

definition get_task :: "database \<Rightarrow> int \<Rightarrow> practice_task option" where
  "get_task db k = find (\<lambda>t. tid t = k) (practice_tasks db)"

text \<open>The key SQLite gives a new row: one more than the largest key in the table.\<close>

definition new_id :: "int list \<Rightarrow> int" where
  "new_id ks = fold max ks 0 + 1"

section \<open>Python numbers\<close>

text \<open>
  A Python \<^verbatim>\<open>float\<close> is an IEEE 754 binary64 number. Every finite binary64 number is a
  rational, so floats are modelled as the rationals with a 53-bit significand, and
  every float operation as the exact operation followed by rounding to the nearest such
  number, ties to the even significand. The exponent range is not modelled: the results
  agree with binary64 for magnitudes from \<open>2 powi - 1022\<close> up to \<open>2 powi 1024\<close>, which
  covers every value that a 64-bit integer column can hold.
\<close>

text \<open>\<open>ilog2 x\<close> is the binary exponent of \<open>x > 0\<close>: \<open>2 powi ilog2 x \<le> x < 2 powi (ilog2 x + 1)\<close>.\<close>

definition ilog2 :: "rat \<Rightarrow> int" where
  "ilog2 x = (if 1 \<le> x then bitlen \<lfloor>x\<rfloor> - 1 else - bitlen (\<lceil>1 / x\<rceil> - 1))"

definition round_half_even :: "rat \<Rightarrow> int" where
  "round_half_even q =
     (let n = \<lfloor>q\<rfloor>; r = q - of_int n
      in if r < 1 / 2 then n else if 1 / 2 < r then n + 1 else if even n then n else n + 1)"

definition fl :: "rat \<Rightarrow> rat" where
  "fl x = (if x = 0 then 0
           else let u = 2 powi (ilog2 \<bar>x\<bar> - 52)
                in sgn x * of_int (round_half_even (\<bar>x\<bar> / u)) * u)"

text \<open>
  A decimal literal denotes the nearest float; an integer operand of a float operation
  is converted to the nearest float first; \<^verbatim>\<open>int / int\<close> is the correctly rounded
  quotient; \<^verbatim>\<open>int(x)\<close> truncates toward zero.
\<close>

definition float_literal :: "rat \<Rightarrow> rat" where
  "float_literal r = fl r"

definition float_of_int :: "int \<Rightarrow> rat" where
  "float_of_int n = fl (of_int n)"

definition fadd :: "rat \<Rightarrow> rat \<Rightarrow> rat" where
  "fadd a b = fl (a + b)"

definition fmul :: "rat \<Rightarrow> rat \<Rightarrow> rat" where
  "fmul a b = fl (a * b)"

definition int_truediv :: "int \<Rightarrow> int \<Rightarrow> rat" where
  "int_truediv a b = fl (of_int a / of_int b)"

definition py_int :: "rat \<Rightarrow> int" where
  "py_int x = (if 0 \<le> x then \<lfloor>x\<rfloor> else \<lceil>x\<rceil>)"

text \<open>Truthiness of an optional integer: \<^verbatim>\<open>None\<close> and \<^verbatim>\<open>0\<close> are falsy.\<close>

definition truthy :: "int option \<Rightarrow> bool" where
  "truthy r = (case r of None \<Rightarrow> False | Some v \<Rightarrow> v \<noteq> 0)"

section \<open>Streak tracker and level resolver\<close>

text \<open>
  \<^verbatim>\<open>update_streak\<close>: the four branches in source order, then the unconditional
  assignment of \<^verbatim>\<open>last_practice_date\<close>. A date object is always truthy, so
  \<^verbatim>\<open>not user.last_practice_date\<close> holds exactly for \<^verbatim>\<open>None\<close>.
\<close>

definition update_streak :: "date \<Rightarrow> user \<Rightarrow> user" where
  "update_streak today u =
     (let u1 =
        (case last_practice_date u of
           None \<Rightarrow> u\<lparr>streak_count := 1\<rparr>
         | Some d \<Rightarrow>
             if d = today then u
             else if d = today - 1 then u\<lparr>streak_count := streak_count u + 1\<rparr>
             else u\<lparr>streak_count := 1\<rparr>)
      in u1\<lparr>last_practice_date := Some today\<rparr>)"

text \<open>\<^verbatim>\<open>update_user_level\<close>: Python's \<^verbatim>\<open>//\<close> is floor division, as \<open>div\<close> on \<^typ>\<open>int\<close>.\<close>

definition update_user_level :: "user \<Rightarrow> user" where
  "update_user_level u = u\<lparr>level := total_points u div 100 + 1\<rparr>"

section \<open>Points calculator\<close>

text \<open>
  \<^verbatim>\<open>calculate_points\<close>. The multiplier is a float literal in every branch; the quality
  bonus is the float \<^verbatim>\<open>0.2\<close> or the integer \<^verbatim>\<open>0\<close>, so \<^verbatim>\<open>1 + quality_bonus\<close> is a float
  addition in the first case and the integer \<open>1\<close> in the second. The product
  \<^verbatim>\<open>base_points * multiplier * (1 + quality_bonus)\<close> is evaluated left to right.
\<close>

definition calculate_points :: "practice_session \<Rightarrow> user \<Rightarrow> int" where
  "calculate_points session usr =
     (let base_points = duration_minutes session;
          multiplier =
            (if 30 \<le> streak_count usr then float_literal 2
             else if 7 \<le> streak_count usr then float_literal (15 / 10)
             else if 3 \<le> streak_count usr then float_literal (12 / 10)
             else float_literal 1);
          scaled = fmul (float_of_int base_points) multiplier
      in if truthy (focus_rating session) \<and> 4 \<le> the (focus_rating session)
         then py_int (fmul scaled (fadd (float_of_int 1) (float_literal (2 / 10))))
         else py_int (fmul scaled (float_of_int (1 + 0))))"

section \<open>Readiness scorer\<close>

text \<open>
  \<^verbatim>\<open>calculate_task_readiness\<close>. The loop over the links of the task carries
  \<^verbatim>\<open>cumulative_rating_points\<close> and \<^verbatim>\<open>rated_sessions\<close>; a rating counts when it is
  truthy. \<^verbatim>\<open>st.session\<close> is the session row of the link; reading a rating from a link
  whose session row is missing raises \<^verbatim>\<open>AttributeError\<close>.
\<close>

fun rating_loop ::
  "practice_session list \<Rightarrow> session_task list \<Rightarrow> int \<times> int \<Rightarrow> error + int \<times> int" where
  "rating_loop sessions [] acc = Inr acc"
| "rating_loop sessions (st # sts) (cumulative_rating_points, rated_sessions) =
     (case find (\<lambda>s. sid s = session_id st) sessions of
        None \<Rightarrow> Inl AttributeError
      | Some session \<Rightarrow>
          let c1 = (if truthy (focus_rating session)
                    then cumulative_rating_points + the (focus_rating session) * 2
                    else cumulative_rating_points);
              c2 = (if truthy (progress_rating session)
                    then c1 + the (progress_rating session) * 2 else c1);
              c3 = (if truthy (energy_rating session)
                    then c2 + the (energy_rating session) * 2 else c2);
              session_has_rating =
                (truthy (focus_rating session) \<or> truthy (progress_rating session)
                 \<or> truthy (energy_rating session))
          in rating_loop sessions sts
               (c3, if session_has_rating then rated_sessions + 1 else rated_sessions))"

definition calculate_task_readiness :: "database \<Rightarrow> practice_task \<Rightarrow> error + rat" where
  "calculate_task_readiness db task =
     (if estimated_minutes task \<le> 0 then Inr (float_literal 0)
      else
        case rating_loop (practice_sessions db)
               (filter (\<lambda>st. task_id st = tid task) (session_tasks db)) (0, 0) of
          Inl e \<Rightarrow> Inl e
        | Inr (cumulative_rating_points, rated_sessions) \<Rightarrow>
            let score = total_time_practiced task + cumulative_rating_points;
                max_rating_points = rated_sessions * 30;
                max_score = estimated_minutes task + max_rating_points
            in if max_score \<le> 0 then Inr (float_literal 0)
               else
                 let readiness = fmul (int_truediv score max_score) (float_of_int 100)
                 in Inr (min readiness (float_literal 100)))"

section \<open>Badge evaluator\<close>

text \<open>
  \<^verbatim>\<open>check_and_award_badges\<close>. The inner \<^verbatim>\<open>award_badge\<close> queries the stored grants of
  the user for the type and appends a new grant only when there is none. The session
  factory of \<^verbatim>\<open>backend/database.py\<close> is configured with \<^verbatim>\<open>autoflush=False\<close>, so the
  query sees the committed grants; the new grants reach the table at the final commit.
\<close>

definition award_badge :: "database \<Rightarrow> user \<Rightarrow> string \<Rightarrow> badge list \<Rightarrow> badge list" where
  "award_badge db usr ty new_badges =
     (case find (\<lambda>b. badge_user_id b = uid usr \<and> badge_type b = ty) (badges db) of
        None \<Rightarrow> new_badges @ [\<lparr>badge_user_id = uid usr, badge_type = ty\<rparr>]
      | Some existing \<Rightarrow> new_badges)"

definition check_and_award_badges ::
  "database \<Rightarrow> user \<Rightarrow> practice_session \<Rightarrow> badge list \<times> database" where
  "check_and_award_badges db usr session =
     (let session_count = length (filter (\<lambda>s. user_id s = uid usr) (practice_sessions db));
          b1 = (if session_count = 1 then award_badge db usr ''first_session'' [] else []);
          b2 = (if 3 \<le> streak_count usr then award_badge db usr ''streak_3'' b1 else b1);
          b3 = (if 7 \<le> streak_count usr then award_badge db usr ''streak_7'' b2 else b2);
          b4 = (if 30 \<le> streak_count usr then award_badge db usr ''streak_30'' b3 else b3);
          b5 = (if 60 \<le> duration_minutes session then award_badge db usr ''marathon'' b4 else b4);
          b6 = (if focus_rating session = Some 5
                then award_badge db usr ''perfect_focus'' b5 else b5);
          session_hour = hour (start_time session);
          b7 = (if session_hour < 8 then award_badge db usr ''early_bird'' b6 else b6);
          new_badges = (if 22 \<le> session_hour then award_badge db usr ''night_owl'' b7 else b7)
      in (new_badges, db\<lparr>badges := badges db @ new_badges\<rparr>))"

section \<open>Session lifecycle\<close>

text \<open>
  The task loop of \<^verbatim>\<open>create_practice_session\<close>. Each entry adds a link row, which stays
  pending until the commit after the loop (\<^verbatim>\<open>autoflush=False\<close>), so the link query inside
  \<^verbatim>\<open>calculate_task_readiness\<close> runs against the committed store \<open>db\<close>; the task object it
  is given carries the new time and count. An entry whose task does not exist only adds
  the link.
\<close>

fun link_tasks ::
  "database \<Rightarrow> int \<Rightarrow> session_task_create list \<Rightarrow> practice_task list \<times> session_task list
   \<Rightarrow> error + practice_task list \<times> session_task list" where
  "link_tasks db k [] acc = Inr acc"
| "link_tasks db k (task_data # rest) (tasks, pending) =
     (let pending1 = pending @ [\<lparr>session_id = k, task_id = create_task_id task_data,
                                 minutes_spent = create_minutes_spent task_data\<rparr>]
      in case find (\<lambda>t. tid t = create_task_id task_data) tasks of
           None \<Rightarrow> link_tasks db k rest (tasks, pending1)
         | Some task \<Rightarrow>
             (let task1 = task\<lparr>total_time_practiced :=
                                total_time_practiced task + create_minutes_spent task_data,
                              practice_count := practice_count task + 1\<rparr>;
                  task2 = (if status task1 = NOT_STARTED
                           then task1\<lparr>status := IN_PROGRESS\<rparr> else task1)
              in (case calculate_task_readiness db task2 of
                    Inl e \<Rightarrow> Inl e
                  | Inr r \<Rightarrow>
                      link_tasks db k rest
                        (update_row tid (task2\<lparr>readiness_score := r\<rparr>) tasks, pending1))))"

text \<open>
  \<^verbatim>\<open>create_practice_session\<close>: user lookup, streak, points, level, first commit; task
  loop, second commit; badges.
\<close>

definition create_practice_session ::
  "date \<Rightarrow> database \<Rightarrow> practice_session_create \<Rightarrow> (error + practice_session) \<times> database" where
  "create_practice_session today db session =
     (case get_user db (create_user_id session) of
        None \<Rightarrow> (Inl (ValueError ''User not found''), db)
      | Some usr \<Rightarrow>
          let db_session =
                \<lparr>sid = new_id (map sid (practice_sessions db)),
                 user_id = create_user_id session,
                 start_time = create_start_time session,
                 duration_minutes = create_duration_minutes session,
                 focus_rating = create_focus_rating session,
                 progress_rating = create_progress_rating session,
                 energy_rating = create_energy_rating session,
                 points_earned = 0\<rparr>;
              usr1 = update_streak today usr;
              points = calculate_points db_session usr1;
              db_session1 = db_session\<lparr>points_earned := points\<rparr>;
              usr2 = usr1\<lparr>total_points := total_points usr1 + points\<rparr>;
              usr3 = update_user_level usr2;
              db1 = db\<lparr>users := update_row uid usr3 (users db),
                       practice_sessions := practice_sessions db @ [db_session1]\<rparr>
          in (case link_tasks db1 (sid db_session1) (create_tasks session)
                     (practice_tasks db1, []) of
                Inl e \<Rightarrow> (Inl e, db1)
              | Inr (tasks1, pending) \<Rightarrow>
                  (let db2 = db1\<lparr>practice_tasks := tasks1,
                                session_tasks := session_tasks db1 @ pending\<rparr>
                   in (Inr db_session1, snd (check_and_award_badges db2 usr3 db_session1)))))"

text \<open>
  \<^verbatim>\<open>update_practice_session\<close>. The fields that were set are assigned first; points are
  recomputed when \<^verbatim>\<open>focus_rating\<close> was set to a value different from the old one.
  \<^verbatim>\<open>calculate_points\<close> reads \<^verbatim>\<open>user.streak_count\<close>, which raises when the user row is
  missing.
\<close>

definition set_fields :: "practice_session_update \<Rightarrow> practice_session \<Rightarrow> practice_session" where
  "set_fields session_update s =
     (let s1 = (case update_focus_rating session_update of
                  None \<Rightarrow> s | Some v \<Rightarrow> s\<lparr>focus_rating := v\<rparr>);
          s2 = (case update_progress_rating session_update of
                  None \<Rightarrow> s1 | Some v \<Rightarrow> s1\<lparr>progress_rating := v\<rparr>)
      in case update_energy_rating session_update of
           None \<Rightarrow> s2 | Some v \<Rightarrow> s2\<lparr>energy_rating := v\<rparr>)"

definition update_practice_session ::
  "database \<Rightarrow> int \<Rightarrow> practice_session_update
   \<Rightarrow> (error + practice_session option) \<times> database" where
  "update_practice_session db k session_update =
     (case get_practice_session db k of
        None \<Rightarrow> (Inr None, db)
      | Some row \<Rightarrow>
          let old_focus = focus_rating row;
              db_session = set_fields session_update row
          in if (case update_focus_rating session_update of
                   None \<Rightarrow> False | Some v \<Rightarrow> v \<noteq> old_focus)
             then
               (case get_user db (user_id db_session) of
                  None \<Rightarrow> (Inl AttributeError, db)
                | Some usr \<Rightarrow>
                    let old_points = points_earned db_session;
                        new_points = calculate_points db_session usr;
                        point_diff = new_points - old_points;
                        db_session1 = db_session\<lparr>points_earned := new_points\<rparr>;
                        usr1 = usr\<lparr>total_points := total_points usr + point_diff\<rparr>;
                        usr2 = update_user_level usr1
                    in (Inr (Some db_session1),
                        db\<lparr>users := update_row uid usr2 (users db),
                           practice_sessions :=
                             update_row sid db_session1 (practice_sessions db)\<rparr>))
             else
               (Inr (Some db_session),
                db\<lparr>practice_sessions := update_row sid db_session (practice_sessions db)\<rparr>))"

text \<open>
  The link loop of \<^verbatim>\<open>delete_practice_session\<close>: \<^verbatim>\<open>st.task\<close> is the task row of the
  link, and assigning to it raises when that row is missing.
\<close>

fun unlink_tasks :: "session_task list \<Rightarrow> practice_task list \<Rightarrow> error + practice_task list" where
  "unlink_tasks [] tasks = Inr tasks"
| "unlink_tasks (st # sts) tasks =
     (case find (\<lambda>t. tid t = task_id st) tasks of
        None \<Rightarrow> Inl AttributeError
      | Some task \<Rightarrow>
          unlink_tasks sts
            (update_row tid
               (task\<lparr>total_time_practiced :=
                        max 0 (total_time_practiced task - minutes_spent st),
                     practice_count := max 0 (practice_count task - 1)\<rparr>)
               tasks))"

text \<open>
  \<^verbatim>\<open>delete_practice_session\<close>. The relationship \<^verbatim>\<open>PracticeSession.session_tasks\<close> of
  \<^verbatim>\<open>backend/models.py\<close> declares no delete cascade, so for \<^verbatim>\<open>db.delete(db_session)\<close> the
  flush of \<^verbatim>\<open>db.commit()\<close> first sets \<^verbatim>\<open>session_id\<close> of every link row of the session to
  null. The column is declared \<^verbatim>\<open>nullable=False\<close>: when the session has a link row,
  SQLite refuses that statement, the commit raises \<^verbatim>\<open>IntegrityError\<close> and nothing of the
  call is stored. A session without link rows is removed, with the user's new points and
  level.
\<close>

definition delete_practice_session :: "database \<Rightarrow> int \<Rightarrow> (error + bool) \<times> database" where
  "delete_practice_session db k =
     (case get_practice_session db k of
        None \<Rightarrow> (Inr False, db)
      | Some db_session \<Rightarrow>
          let users1 =
                (case get_user db (user_id db_session) of
                   None \<Rightarrow> users db
                 | Some usr \<Rightarrow>
                     update_row uid
                       (update_user_level
                          (usr\<lparr>total_points :=
                                 max 0 (total_points usr - points_earned db_session)\<rparr>))
                       (users db));
              links = filter (\<lambda>st. session_id st = sid db_session) (session_tasks db)
          in (case unlink_tasks links (practice_tasks db) of
                Inl e \<Rightarrow> (Inl e, db)
              | Inr tasks1 \<Rightarrow>
                  if links = []
                  then (Inr True,
                        db\<lparr>users := users1,
                           practice_tasks := tasks1,
                           practice_sessions := delete_row sid k (practice_sessions db)\<rparr>)
                  else (Inl IntegrityError, db)))"

section \<open>Leaderboard aggregator\<close>

text \<open>
  \<^verbatim>\<open>date.weekday()\<close> numbers Monday as 0; ordinal 1 is a Monday.
  \<^verbatim>\<open>list.sort(key=..., reverse=True)\<close> is a stable sort in descending key order: CPython
  reverses the list, sorts it stably in ascending order and reverses the result.
  \<^verbatim>\<open>SUM\<close> over no rows is null, which \<^verbatim>\<open>or 0\<close> turns into \<open>0\<close>.
\<close>

definition weekday :: "date \<Rightarrow> int" where
  "weekday d = (d + 6) mod 7"

definition sort_reverse :: "('a \<Rightarrow> int) \<Rightarrow> 'a list \<Rightarrow> 'a list" where
  "sort_reverse key xs = rev (sort_key key (rev xs))"

definition get_ensemble_members :: "database \<Rightarrow> int \<Rightarrow> user list" where
  "get_ensemble_members db k = filter (\<lambda>u. ensemble_id u = Some k) (users db)"

definition weekly_sessions :: "database \<Rightarrow> date \<Rightarrow> date \<Rightarrow> user \<Rightarrow> practice_session list" where
  "weekly_sessions db week_start week_end member =
     filter (\<lambda>s. user_id s = uid member \<and> week_start \<le> date_of (start_time s)
                  \<and> date_of (start_time s) \<le> week_end)
       (practice_sessions db)"

definition get_weekly_leaderboard :: "date \<Rightarrow> database \<Rightarrow> int \<Rightarrow> leaderboard" where
  "get_weekly_leaderboard today db k =
     (let week_start = today - weekday today;
          week_end = week_start + 6;
          members = get_ensemble_members db k;
          unranked =
            map (\<lambda>member.
                   \<lparr>rank = 0, entry_user = member,
                    weekly_minutes =
                      sum_list (map duration_minutes
                                  (weekly_sessions db week_start week_end member)),
                    weekly_points =
                      sum_list (map points_earned
                                  (weekly_sessions db week_start week_end member))\<rparr>)
              members;
          ordered = sort_reverse weekly_minutes unranked;
          leaderboard_entries =
            map (\<lambda>(i, entry). entry\<lparr>rank := int i + 1\<rparr>) (enumerate 0 ordered)
      in \<lparr>entries = leaderboard_entries, period_start = week_start, period_end = week_end\<rparr>)"

section \<open>A worked example\<close>

text \<open>
  A store with one user who practised yesterday with a streak of 2, and one task of 30
  estimated minutes. The user logs 40 minutes at 06:00 with all three ratings at 5, 30
  of the minutes on the task; the logged session is then re-rated to focus 2. The same
  session logged without a task link is then deleted.
\<close>

definition demo_user :: user where
  "demo_user = \<lparr>uid = 1, ensemble_id = Some 1, streak_count = 2, total_points = 90, level = 1,
                 last_practice_date = Some 99\<rparr>"

definition demo_task :: practice_task where
  "demo_task = \<lparr>tid = 1, estimated_minutes = 30, total_time_practiced = 0, practice_count = 0,
                 status = NOT_STARTED, readiness_score = 0\<rparr>"

definition demo_db :: database where
  "demo_db = \<lparr>users = [demo_user], practice_sessions = [], practice_tasks = [demo_task],
               session_tasks = [], badges = []\<rparr>"

definition demo_create :: practice_session_create where
  "demo_create = \<lparr>create_user_id = 1, create_start_time = \<lparr>date_of = 100, hour = 6\<rparr>,
                   create_duration_minutes = 40, create_focus_rating = Some 5,
                   create_progress_rating = Some 5, create_energy_rating = Some 5,
                   create_tasks = [\<lparr>create_task_id = 1, create_minutes_spent = 30\<rparr>]\<rparr>"

definition demo_session :: practice_session where
  "demo_session = \<lparr>sid = 1, user_id = 1, start_time = \<lparr>date_of = 100, hour = 6\<rparr>,
                    duration_minutes = 40, focus_rating = Some 5, progress_rating = Some 5,
                    energy_rating = Some 5, points_earned = 57\<rparr>"

definition demo_user_logged :: user where
  "demo_user_logged = \<lparr>uid = 1, ensemble_id = Some 1, streak_count = 3, total_points = 147,
                        level = 2, last_practice_date = Some 100\<rparr>"

definition demo_task_logged :: practice_task where
  "demo_task_logged = \<lparr>tid = 1, estimated_minutes = 30, total_time_practiced = 30,
                        practice_count = 1, status = IN_PROGRESS, readiness_score = 100\<rparr>"

definition demo_db_logged :: database where
  "demo_db_logged =
     \<lparr>users = [demo_user_logged],
      practice_sessions = [demo_session],
      practice_tasks = [demo_task_logged],
      session_tasks = [\<lparr>session_id = 1, task_id = 1, minutes_spent = 30\<rparr>],
      badges =
        [\<lparr>badge_user_id = 1, badge_type = ''first_session''\<rparr>,
         \<lparr>badge_user_id = 1, badge_type = ''streak_3''\<rparr>,
         \<lparr>badge_user_id = 1, badge_type = ''perfect_focus''\<rparr>,
         \<lparr>badge_user_id = 1, badge_type = ''early_bird''\<rparr>]\<rparr>"

definition demo_update :: practice_session_update where
  "demo_update = \<lparr>update_focus_rating = Some (Some 2), update_progress_rating = None,
                   update_energy_rating = None\<rparr>"

definition demo_session_rerated :: practice_session where
  "demo_session_rerated = demo_session\<lparr>focus_rating := Some 2, points_earned := 48\<rparr>"

definition demo_db_rerated :: database where
  "demo_db_rerated =
     demo_db_logged
       \<lparr>users := [demo_user_logged\<lparr>total_points := 138\<rparr>],
        practice_sessions := [demo_session_rerated]\<rparr>"

definition demo_create_unlinked :: practice_session_create where
  "demo_create_unlinked = demo_create\<lparr>create_tasks := []\<rparr>"

definition demo_db_unlinked :: database where
  "demo_db_unlinked = demo_db_logged\<lparr>practice_tasks := [demo_task], session_tasks := []\<rparr>"

definition demo_db_deleted :: database where
  "demo_db_deleted =
     demo_db_unlinked
       \<lparr>users := [demo_user_logged\<lparr>total_points := 90, level := 1\<rparr>],
        practice_sessions := []\<rparr>"

section \<open>Badge specification\<close>

text \<open>
  What a user holds and how often: \<open>has_badge\<close> is the query of \<^verbatim>\<open>award_badge\<close>,
  \<open>grants\<close> counts the grant rows of a user and type.
\<close>

definition has_badge :: "database \<Rightarrow> int \<Rightarrow> string \<Rightarrow> bool" where
  "has_badge db k ty = (find (\<lambda>b. badge_user_id b = k \<and> badge_type b = ty) (badges db) \<noteq> None)"

definition grants :: "database \<Rightarrow> int \<Rightarrow> string \<Rightarrow> nat" where
  "grants db k ty = length (filter (\<lambda>b. badge_user_id b = k \<and> badge_type b = ty) (badges db))"

text \<open>
  The catalog and the trigger table of the specification: the first session on record,
  the three streak thresholds, a session of 60 minutes or more, a focus rating of 5, a
  start hour before 8, a start hour of 22 or later. \<open>session_count_for_user\<close> is the
  count the evaluator takes of the user's stored sessions.
\<close>

definition badge_catalog :: "string list" where
  "badge_catalog = [''first_session'', ''streak_3'', ''streak_7'', ''streak_30'', ''marathon'',
                    ''perfect_focus'', ''early_bird'', ''night_owl'']"

definition badge_trigger :: "nat \<Rightarrow> user \<Rightarrow> practice_session \<Rightarrow> string \<Rightarrow> bool" where
  "badge_trigger session_count usr s ty =
     (if ty = ''first_session'' then session_count = 1
      else if ty = ''streak_3'' then 3 \<le> streak_count usr
      else if ty = ''streak_7'' then 7 \<le> streak_count usr
      else if ty = ''streak_30'' then 30 \<le> streak_count usr
      else if ty = ''marathon'' then 60 \<le> duration_minutes s
      else if ty = ''perfect_focus'' then focus_rating s = Some 5
      else if ty = ''early_bird'' then hour (start_time s) < 8
      else if ty = ''night_owl'' then 22 \<le> hour (start_time s)
      else False)"

definition session_count_for_user :: "database \<Rightarrow> user \<Rightarrow> nat" where
  "session_count_for_user db usr = length (filter (\<lambda>s. user_id s = uid usr) (practice_sessions db))"

text \<open>The logged example with a single earlier grant.\<close>

definition demo_db_one_badge :: database where
  "demo_db_one_badge = demo_db_logged\<lparr>badges := [\<lparr>badge_user_id = 1, badge_type = ''streak_3''\<rparr>]\<rparr>"

text \<open>
  The week of the specification: the seven days from a Monday to the Sunday after it,
  and the sessions of a member whose calendar date falls in that window.
\<close>

definition week_window :: "date \<Rightarrow> date list" where
  "week_window monday = map (\<lambda>i. monday + int i) [0..<7]"

definition window_sessions :: "database \<Rightarrow> date \<Rightarrow> user \<Rightarrow> practice_session list" where
  "window_sessions db monday member =
     filter (\<lambda>s. user_id s = uid member \<and> date_of (start_time s) \<in> set (week_window monday))
       (practice_sessions db)"

text \<open>
  An ensemble of four members (users 1, 2, 3 and 5; user 4 belongs to another ensemble).
  Day 100 is a Tuesday, so the week runs from Monday, day 99, to Sunday, day 105. The
  sessions of day 98 (the Sunday before) and of day 106 (the Monday after) fall outside
  it; the sessions of day 99 at 00:00 and of day 105 at 23:00 fall inside.
\<close>

definition demo_ensemble_db :: database where
  "demo_ensemble_db =
     \<lparr>users =
        [\<lparr>uid = 1, ensemble_id = Some 1, streak_count = 0, total_points = 0, level = 1,
          last_practice_date = None\<rparr>,
         \<lparr>uid = 2, ensemble_id = Some 1, streak_count = 1, total_points = 60, level = 1,
          last_practice_date = Some 105\<rparr>,
         \<lparr>uid = 3, ensemble_id = Some 1, streak_count = 1, total_points = 190, level = 2,
          last_practice_date = Some 106\<rparr>,
         \<lparr>uid = 4, ensemble_id = Some 2, streak_count = 1, total_points = 300, level = 4,
          last_practice_date = Some 100\<rparr>,
         \<lparr>uid = 5, ensemble_id = Some 1, streak_count = 1, total_points = 530, level = 6,
          last_practice_date = Some 106\<rparr>],
      practice_sessions =
        [\<lparr>sid = 1, user_id = 5, start_time = \<lparr>date_of = 98, hour = 23\<rparr>, duration_minutes = 30,
          focus_rating = None, progress_rating = None, energy_rating = None, points_earned = 30\<rparr>,
         \<lparr>sid = 2, user_id = 3, start_time = \<lparr>date_of = 98, hour = 10\<rparr>, duration_minutes = 60,
          focus_rating = None, progress_rating = None, energy_rating = None, points_earned = 60\<rparr>,
         \<lparr>sid = 3, user_id = 2, start_time = \<lparr>date_of = 99, hour = 0\<rparr>, duration_minutes = 45,
          focus_rating = None, progress_rating = None, energy_rating = None, points_earned = 45\<rparr>,
         \<lparr>sid = 4, user_id = 3, start_time = \<lparr>date_of = 100, hour = 9\<rparr>, duration_minutes = 120,
          focus_rating = None, progress_rating = None, energy_rating = None, points_earned = 120\<rparr>,
         \<lparr>sid = 5, user_id = 4, start_time = \<lparr>date_of = 100, hour = 9\<rparr>, duration_minutes = 300,
          focus_rating = None, progress_rating = None, energy_rating = None, points_earned = 300\<rparr>,
         \<lparr>sid = 6, user_id = 2, start_time = \<lparr>date_of = 105, hour = 23\<rparr>, duration_minutes = 15,
          focus_rating = None, progress_rating = None, energy_rating = None, points_earned = 15\<rparr>,
         \<lparr>sid = 7, user_id = 5, start_time = \<lparr>date_of = 106, hour = 0\<rparr>, duration_minutes = 500,
          focus_rating = None, progress_rating = None, energy_rating = None, points_earned = 500\<rparr>,
         \<lparr>sid = 8, user_id = 3, start_time = \<lparr>date_of = 106, hour = 9\<rparr>, duration_minutes = 10,
          focus_rating = None, progress_rating = None, energy_rating = None, points_earned = 10\<rparr>],
      practice_tasks = [], session_tasks = [], badges = []\<rparr>"

text \<open>
  An ensemble of two members without sessions; the second logs a session with a duration
  of minus 10 minutes (the request schema declares \<^verbatim>\<open>duration_minutes\<close> as an integer, with
  no lower bound).
\<close>

definition demo_pair_db :: database where
  "demo_pair_db =
     \<lparr>users =
        [\<lparr>uid = 1, ensemble_id = Some 1, streak_count = 0, total_points = 0, level = 1,
          last_practice_date = None\<rparr>,
         \<lparr>uid = 2, ensemble_id = Some 1, streak_count = 0, total_points = 0, level = 1,
          last_practice_date = None\<rparr>],
      practice_sessions = [], practice_tasks = [], session_tasks = [], badges = []\<rparr>"

definition demo_create_negative_duration :: practice_session_create where
  "demo_create_negative_duration =
     \<lparr>create_user_id = 2, create_start_time = \<lparr>date_of = 100, hour = 12\<rparr>,
      create_duration_minutes = - 10, create_focus_rating = None,
      create_progress_rating = None, create_energy_rating = None, create_tasks = []\<rparr>"

definition demo_pair_db_logged :: database where
  "demo_pair_db_logged =
     \<lparr>users =
        [\<lparr>uid = 1, ensemble_id = Some 1, streak_count = 0, total_points = 0, level = 1,
          last_practice_date = None\<rparr>,
         \<lparr>uid = 2, ensemble_id = Some 1, streak_count = 1, total_points = - 10, level = 0,
          last_practice_date = Some 100\<rparr>],
      practice_sessions =
        [\<lparr>sid = 1, user_id = 2, start_time = \<lparr>date_of = 100, hour = 12\<rparr>,
          duration_minutes = - 10, focus_rating = None, progress_rating = None,
          energy_rating = None, points_earned = - 10\<rparr>],
      practice_tasks = [], session_tasks = [],
      badges = [\<lparr>badge_user_id = 2, badge_type = ''first_session''\<rparr>]\<rparr>"





section \<open>Readiness specification\<close>








section \<open>Points specification\<close>

text \<open>
  The point formula of the specification in exact arithmetic: the streak multiplier, the
  quality bonus, and the floor of their product with the duration.
\<close>

definition streak_multiplier :: "int \<Rightarrow> rat" where
  "streak_multiplier streak =
     (if 30 \<le> streak then 2 else if 7 \<le> streak then 3 / 2
      else if 3 \<le> streak then 6 / 5 else 1)"

definition quality_bonus :: "int option \<Rightarrow> rat" where
  "quality_bonus focus = (case focus of None \<Rightarrow> 0 | Some f \<Rightarrow> if 4 \<le> f then 1 / 5 else 0)"

definition exact_points :: "int \<Rightarrow> int option \<Rightarrow> int \<Rightarrow> int" where
  "exact_points duration focus streak =
     \<lfloor>of_int duration * streak_multiplier streak * (1 + quality_bonus focus)\<rfloor>"

text \<open>A session of \<open>2\<^sup>5\<^sup>3 + 1\<close> minutes, unrated, for a user without a streak.\<close>

definition demo_session_huge :: practice_session where
  "demo_session_huge = \<lparr>sid = 1, user_id = 1, start_time = \<lparr>date_of = 100, hour = 12\<rparr>,
                         duration_minutes = 9007199254740993, focus_rating = None,
                         progress_rating = None, energy_rating = None, points_earned = 0\<rparr>"




text \<open>The logging request of the example with 15 minutes and the focus rating only.\<close>

definition demo_create_partly_rated :: practice_session_create where
  "demo_create_partly_rated =
     demo_create\<lparr>create_duration_minutes := 15, create_progress_rating := None,
                   create_energy_rating := None,
                   create_tasks := [\<lparr>create_task_id = 1, create_minutes_spent = 15\<rparr>]\<rparr>"

section \<open>Streak rule\<close>

text \<open>
  Claim C3. \<^verbatim>\<open>update_streak\<close> follows the priority rule: no last date gives streak 1;
  last date equal to today leaves the streak unchanged; last date equal to yesterday
  increments it; any other date (a gap of two or more days, or a date in the future)
  resets it to 1. The resulting last practice date is always today, and a second
  application with the same today changes nothing.
\<close>

theorem update_streak_priority_rule:
  "last_practice_date (update_streak today u) = Some today
   \<and> (last_practice_date u = None \<longrightarrow> streak_count (update_streak today u) = 1)
   \<and> (last_practice_date u = Some today \<longrightarrow>
        streak_count (update_streak today u) = streak_count u)
   \<and> (last_practice_date u = Some (today - 1) \<longrightarrow>
        streak_count (update_streak today u) = streak_count u + 1)
   \<and> (\<forall>d. last_practice_date u = Some d \<and> (d \<le> today - 2 \<or> today < d) \<longrightarrow>
        streak_count (update_streak today u) = 1)
   \<and> update_streak today (update_streak today u) = update_streak today u"
  by (auto simp: update_streak_def Let_def split: option.splits)

theorem update_streak_priority_rule_witness:
  "(let u = \<lparr>uid = 1, ensemble_id = None, streak_count = 2, total_points = 0, level = 1,
              last_practice_date = Some 99\<rparr>
    in last_practice_date u = Some (100 - 1)
       \<and> streak_count (update_streak 100 u) = 3
       \<and> last_practice_date (update_streak 100 u) = Some 100
       \<and> update_streak 100 (update_streak 100 u) = update_streak 100 u)"
  using update_streak_priority_rule
    [of 100 "\<lparr>uid = 1, ensemble_id = None, streak_count = 2, total_points = 0, level = 1,
              last_practice_date = Some 99\<rparr>"]
  by (simp add: Let_def)


section \<open>Store lemmas\<close>

lemma find_update_row:
  "find (\<lambda>x. key x = k) (update_row key r xs) =
     (if key r = k then (case find (\<lambda>x. key x = k) xs of None \<Rightarrow> None | Some y \<Rightarrow> Some r)
      else find (\<lambda>x. key x = k) xs)"
  by (induction xs) auto

lemma find_key: "find (\<lambda>x. key x = k) xs = Some y \<Longrightarrow> key y = k"
  by (induction xs) (auto split: if_splits)

lemma get_user_uid: "get_user db k = Some u \<Longrightarrow> uid u = k"
  unfolding get_user_def by (rule find_key)

lemma get_session_sid: "get_practice_session db k = Some s \<Longrightarrow> sid s = k"
  unfolding get_practice_session_def by (rule find_key)

lemma check_and_award_badges_frame:
  "users (snd (check_and_award_badges db u s)) = users db"
  "practice_sessions (snd (check_and_award_badges db u s)) = practice_sessions db"
  "practice_tasks (snd (check_and_award_badges db u s)) = practice_tasks db"
  "session_tasks (snd (check_and_award_badges db u s)) = session_tasks db"
  by (simp_all add: check_and_award_badges_def Let_def)

section \<open>The worked example, evaluated\<close>

lemma demo_create_run:
  "create_practice_session 100 demo_db demo_create = (Inr demo_session, demo_db_logged)"
  by code_simp

lemma demo_update_run:
  "update_practice_session demo_db_logged 1 demo_update =
     (Inr (Some demo_session_rerated), demo_db_rerated)"
  by code_simp

lemma demo_create_unlinked_run:
  "create_practice_session 100 demo_db demo_create_unlinked = (Inr demo_session, demo_db_unlinked)"
  by code_simp

lemma demo_delete_run:
  "delete_practice_session demo_db_unlinked 1 = (Inr True, demo_db_deleted)"
  by code_simp

lemma demo_lookups:
  "get_practice_session demo_db_logged 1 = Some demo_session"
  "get_user demo_db_logged 1 = Some demo_user_logged"
  "get_task demo_db_logged 1 = Some demo_task_logged"
  by code_simp+

lemma demo_unlinked_lookups:
  "get_practice_session demo_db_unlinked 1 = Some demo_session"
  "get_user demo_db_unlinked 1 = Some demo_user_logged"
  by code_simp+

section \<open>Level invariant\<close>

lemma create_user_after:
  assumes "get_user db (create_user_id session) = Some usr"
      and "create_practice_session today db session = (Inr s, db')"
  shows "get_user db' (create_user_id session) =
           Some (update_user_level
                   ((update_streak today usr)
                      \<lparr>total_points := total_points (update_streak today usr) + points_earned s\<rparr>))"
  using assms get_user_uid[OF assms(1)]
  by (auto simp: create_practice_session_def Let_def get_user_def find_update_row
        check_and_award_badges_frame update_user_level_def update_streak_def
      split: sum.splits prod.splits option.splits)

lemma update_user_after:
  assumes "get_practice_session db k = Some row"
      and "update_focus_rating upd = Some v" "v \<noteq> focus_rating row"
      and "update_practice_session db k upd = (Inr r, db')"
  shows "\<exists>usr. get_user db (user_id row) = Some usr \<and>
           get_user db' (user_id row) =
             Some (update_user_level
                     (usr\<lparr>total_points := total_points usr
                          + (calculate_points (set_fields upd row) usr - points_earned row)\<rparr>))"
proof -
  have uid_row: "user_id (set_fields upd row) = user_id row"
    by (simp add: set_fields_def Let_def split: option.splits)
  have pts_row: "points_earned (set_fields upd row) = points_earned row"
    by (simp add: set_fields_def Let_def split: option.splits)
  from assms obtain usr where u: "get_user db (user_id row) = Some usr"
    by (cases "get_user db (user_id row)")
       (auto simp: update_practice_session_def Let_def uid_row)
  have "uid usr = user_id row" using u by (rule get_user_uid)
  with assms u show ?thesis
    by (auto simp: update_practice_session_def Let_def uid_row pts_row get_user_def
          find_update_row update_user_level_def)
qed

lemma delete_user_after:
  assumes "get_practice_session db k = Some s"
      and "get_user db (user_id s) = Some usr"
      and "delete_practice_session db k = (Inr b, db')"
  shows "get_user db' (user_id s) =
           Some (update_user_level
                   (usr\<lparr>total_points := max 0 (total_points usr - points_earned s)\<rparr>))"
  using assms get_user_uid[OF assms(2)]
  by (auto simp: delete_practice_session_def Let_def get_user_def find_update_row
        update_user_level_def split: sum.splits if_splits)

text \<open>
  Claim C1. After each operation that changes \<^verbatim>\<open>total_points\<close> (logging a session,
  re-rating a session with a changed focus rating, deleting a session of an existing
  user), the level of the user concerned is \<open>total_points div 100 + 1\<close>, the floor of a
  hundredth of the points plus one. A delete changes the points only when it is stored,
  which is the case for a session without link rows; the example deletes the session
  logged without a task link.
\<close>

theorem level_resolved_after_point_mutation:
  "(create_practice_session today db session = (Inr s, db') \<longrightarrow>
      (\<exists>u. get_user db' (create_user_id session) = Some u
           \<and> level u = total_points u div 100 + 1))
   \<and> (get_practice_session db k = Some row \<and> update_focus_rating upd = Some v
        \<and> v \<noteq> focus_rating row \<and> update_practice_session db k upd = (Inr r, db') \<longrightarrow>
      (\<exists>u. get_user db' (user_id row) = Some u \<and> level u = total_points u div 100 + 1))
   \<and> (get_practice_session db k = Some row \<and> get_user db (user_id row) = Some usr
        \<and> delete_practice_session db k = (Inr True, db') \<longrightarrow>
      (\<exists>u. get_user db' (user_id row) = Some u \<and> level u = total_points u div 100 + 1))"
proof (intro conjI impI)
  assume c: "create_practice_session today db session = (Inr s, db')"
  then obtain usr where "get_user db (create_user_id session) = Some usr"
    by (cases "get_user db (create_user_id session)")
       (auto simp: create_practice_session_def)
  from create_user_after[OF this c]
  show "\<exists>u. get_user db' (create_user_id session) = Some u
           \<and> level u = total_points u div 100 + 1"
    by (simp add: update_user_level_def)
next
  assume "get_practice_session db k = Some row \<and> update_focus_rating upd = Some v
        \<and> v \<noteq> focus_rating row \<and> update_practice_session db k upd = (Inr r, db')"
  then have "\<exists>usr. get_user db (user_id row) = Some usr \<and>
           get_user db' (user_id row) =
             Some (update_user_level
                     (usr\<lparr>total_points := total_points usr
                          + (calculate_points (set_fields upd row) usr - points_earned row)\<rparr>))"
    using update_user_after by blast
  then show "\<exists>u. get_user db' (user_id row) = Some u \<and> level u = total_points u div 100 + 1"
    by (auto simp: update_user_level_def)
next
  assume "get_practice_session db k = Some row \<and> get_user db (user_id row) = Some usr
        \<and> delete_practice_session db k = (Inr True, db')"
  then have "get_user db' (user_id row) =
           Some (update_user_level
                   (usr\<lparr>total_points := max 0 (total_points usr - points_earned row)\<rparr>))"
    using delete_user_after by blast
  then show "\<exists>u. get_user db' (user_id row) = Some u \<and> level u = total_points u div 100 + 1"
    by (simp add: update_user_level_def)
qed

theorem level_resolved_after_point_mutation_witness:
  "create_practice_session 100 demo_db demo_create = (Inr demo_session, demo_db_logged)
   \<and> (\<exists>u. get_user demo_db_logged 1 = Some u \<and> level u = total_points u div 100 + 1)
   \<and> get_practice_session demo_db_logged 1 = Some demo_session
   \<and> update_focus_rating demo_update = Some (Some 2)
   \<and> Some 2 \<noteq> focus_rating demo_session
   \<and> update_practice_session demo_db_logged 1 demo_update =
        (Inr (Some demo_session_rerated), demo_db_rerated)
   \<and> (\<exists>u. get_user demo_db_rerated 1 = Some u \<and> level u = total_points u div 100 + 1)
   \<and> get_practice_session demo_db_unlinked 1 = Some demo_session
   \<and> get_user demo_db_unlinked 1 = Some demo_user_logged
   \<and> delete_practice_session demo_db_unlinked 1 = (Inr True, demo_db_deleted)
   \<and> (\<exists>u. get_user demo_db_deleted 1 = Some u \<and> level u = total_points u div 100 + 1)"
proof -
  have h1: "update_focus_rating demo_update = Some (Some 2)"
    and h2: "Some 2 \<noteq> focus_rating demo_session"
    and h3: "create_user_id demo_create = 1" and h4: "user_id demo_session = 1"
    by (simp_all add: demo_update_def demo_session_def demo_create_def)
  have c1: "\<exists>u. get_user demo_db_logged 1 = Some u \<and> level u = total_points u div 100 + 1"
    using level_resolved_after_point_mutation
            [where today = 100 and db = demo_db and session = demo_create
               and s = demo_session and db' = demo_db_logged]
          demo_create_run h3 by simp
  have c2: "\<exists>u. get_user demo_db_rerated 1 = Some u \<and> level u = total_points u div 100 + 1"
    using level_resolved_after_point_mutation
            [where db = demo_db_logged and k = 1 and row = demo_session and upd = demo_update
               and v = "Some 2" and db' = demo_db_rerated and r = "Some demo_session_rerated"]
          demo_update_run demo_lookups(1) h1 h2 h4 by simp
  have c3: "\<exists>u. get_user demo_db_deleted 1 = Some u \<and> level u = total_points u div 100 + 1"
    using level_resolved_after_point_mutation
            [where db = demo_db_unlinked and k = 1 and row = demo_session
               and db' = demo_db_deleted and usr = demo_user_logged]
          demo_delete_run demo_unlinked_lookups h4 by simp
  show ?thesis
    using demo_create_run demo_update_run demo_delete_run demo_lookups demo_unlinked_lookups
      h1 h2 c1 c2 c3
    by simp
qed

section \<open>Unknown user\<close>

text \<open>
  Claim C5. Logging a session for a user id that has no row fails with the
  user-not-found error, and the store is the one the call was given: no streak, point or
  level change, no session or link row, no badge grant.
\<close>

theorem create_unknown_user_fails_before_mutation:
  "get_user db (create_user_id session) = None \<Longrightarrow>
   create_practice_session today db session = (Inl (ValueError ''User not found''), db)"
  by (simp add: create_practice_session_def)

theorem create_unknown_user_fails_before_mutation_witness:
  "get_user demo_db_logged (create_user_id (demo_create\<lparr>create_user_id := 7\<rparr>)) = None
   \<and> create_practice_session 100 demo_db_logged (demo_create\<lparr>create_user_id := 7\<rparr>) =
       (Inl (ValueError ''User not found''), demo_db_logged)"
proof -
  have h: "get_user demo_db_logged (create_user_id (demo_create\<lparr>create_user_id := 7\<rparr>)) = None"
    by code_simp
  from create_unknown_user_fails_before_mutation[OF h, of 100] h show ?thesis by simp
qed

section \<open>Deleting a session\<close>

lemma delete_linked_session_fails:
  assumes "get_practice_session db k = Some s"
      and "filter (\<lambda>st. session_id st = k) (session_tasks db) \<noteq> []"
  shows "\<exists>e. delete_practice_session db k = (Inl e, db)"
proof -
  have sk: "sid s = k" using assms(1) by (rule get_session_sid)
  show ?thesis
    using assms
    by (cases "unlink_tasks (filter (\<lambda>st. session_id st = k) (session_tasks db))
                 (practice_tasks db)")
       (simp_all add: delete_practice_session_def Let_def sk)
qed

lemma delete_unlinked_session:
  assumes "get_practice_session db k = Some s"
      and "filter (\<lambda>st. session_id st = k) (session_tasks db) = []"
  shows "\<exists>db'. delete_practice_session db k = (Inr True, db')
           \<and> practice_sessions db' = delete_row sid k (practice_sessions db)
           \<and> practice_tasks db' = practice_tasks db
           \<and> session_tasks db' = session_tasks db
           \<and> badges db' = badges db"
proof -
  have sk: "sid s = k" using assms(1) by (rule get_session_sid)
  show ?thesis using assms by (simp add: delete_practice_session_def Let_def sk)
qed

text \<open>
  Claim C6 says that deleting a session with per-task links takes the session's points
  off the user, resolves the level again and takes every link's minutes and one count
  off the linked task. \<^verbatim>\<open>delete_practice_session\<close> makes these assignments and then
  commits the delete of the session row; for a session with a link row the commit raises
  \<^verbatim>\<open>IntegrityError\<close> and nothing is stored. In the worked example the logged session of
  57 points has one link of 30 minutes: the delete raises and leaves the store as it was,
  the user with 147 points, the task with its 30 minutes and its count of 1.
\<close>

theorem delete_linked_session_reverses_nothing:
  "get_practice_session demo_db_logged 1 = Some demo_session
   \<and> points_earned demo_session = 57
   \<and> filter (\<lambda>st. session_id st = 1) (session_tasks demo_db_logged) =
       [\<lparr>session_id = 1, task_id = 1, minutes_spent = 30\<rparr>]
   \<and> delete_practice_session demo_db_logged 1 = (Inl IntegrityError, demo_db_logged)
   \<and> get_user demo_db_logged 1 = Some demo_user_logged
   \<and> total_points demo_user_logged = 147
   \<and> get_task demo_db_logged 1 = Some demo_task_logged
   \<and> total_time_practiced demo_task_logged = 30
   \<and> practice_count demo_task_logged = 1"
proof -
  have "points_earned demo_session = 57" by code_simp
  moreover have "filter (\<lambda>st. session_id st = 1) (session_tasks demo_db_logged) =
       [\<lparr>session_id = 1, task_id = 1, minutes_spent = 30\<rparr>]" by code_simp
  moreover have
    "delete_practice_session demo_db_logged 1 = (Inl IntegrityError, demo_db_logged)"
    by code_simp
  moreover have "total_points demo_user_logged = 147" by code_simp
  moreover have "total_time_practiced demo_task_logged = 30" by code_simp
  moreover have "practice_count demo_task_logged = 1" by code_simp
  ultimately show ?thesis using demo_lookups by simp
qed

section \<open>Badge grants\<close>

lemma award_step:
  "(if c then award_badge db usr ty nb else nb) =
     nb @ (if c \<and> \<not> has_badge db (uid usr) ty
           then [\<lparr>badge_user_id = uid usr, badge_type = ty\<rparr>] else [])"
  by (auto simp: award_badge_def has_badge_def split: option.splits)

lemma badge_trigger_simps:
  "badge_trigger n usr s ''first_session'' = (n = 1)"
  "badge_trigger n usr s ''streak_3'' = (3 \<le> streak_count usr)"
  "badge_trigger n usr s ''streak_7'' = (7 \<le> streak_count usr)"
  "badge_trigger n usr s ''streak_30'' = (30 \<le> streak_count usr)"
  "badge_trigger n usr s ''marathon'' = (60 \<le> duration_minutes s)"
  "badge_trigger n usr s ''perfect_focus'' = (focus_rating s = Some 5)"
  "badge_trigger n usr s ''early_bird'' = (hour (start_time s) < 8)"
  "badge_trigger n usr s ''night_owl'' = (22 \<le> hour (start_time s))"
  by (simp_all add: badge_trigger_def)

lemma filter_Cons_append: "filter P (x # xs) = (if P x then [x] else []) @ filter P xs"
  by simp

lemma map_if_single: "map f (if c then [x] else []) = (if c then [f x] else [])"
  by simp

lemma new_badges_eq:
  "fst (check_and_award_badges db usr s) =
     map (\<lambda>ty. \<lparr>badge_user_id = uid usr, badge_type = ty\<rparr>)
       (filter (\<lambda>ty. badge_trigger (session_count_for_user db usr) usr s ty
                     \<and> \<not> has_badge db (uid usr) ty) badge_catalog)"
  unfolding check_and_award_badges_def Let_def fst_conv award_step badge_catalog_def
    filter_Cons_append filter.simps(1) map_append map_if_single list.map(1) badge_trigger_simps
    session_count_for_user_def append_Nil append_Nil2 append_assoc
  by (rule refl)

lemma badges_after_check:
  "badges (snd (check_and_award_badges db usr s)) = badges db @ fst (check_and_award_badges db usr s)"
  by (simp add: check_and_award_badges_def Let_def)

lemma has_badge_iff:
  "has_badge db k ty \<longleftrightarrow> \<lparr>badge_user_id = k, badge_type = ty\<rparr> \<in> set (badges db)"
proof -
  have "(\<exists>b\<in>set (badges db). badge_user_id b = k \<and> badge_type b = ty)
        \<longleftrightarrow> \<lparr>badge_user_id = k, badge_type = ty\<rparr> \<in> set (badges db)"
    by (metis (full_types) badge.select_convs(1,2) badge.surjective old.unit.exhaust)
  then show ?thesis unfolding has_badge_def find_None_iff by blast
qed

lemma grants_zero: "\<not> has_badge db k ty \<Longrightarrow> grants db k ty = 0"
  by (auto simp: has_badge_def grants_def find_None_iff filter_empty_conv)

lemma count_new:
  "distinct xs \<Longrightarrow>
   length (filter (\<lambda>b. badge_user_id b = k \<and> badge_type b = ty)
             (map (\<lambda>ty. \<lparr>badge_user_id = u, badge_type = ty\<rparr>) (filter P xs)))
     = (if k = u \<and> ty \<in> set xs \<and> P ty then 1 else 0)"
  by (induction xs) auto

lemma distinct_badge_catalog: "distinct badge_catalog"
  by (simp add: badge_catalog_def)

lemma session_count_after_check:
  "session_count_for_user (snd (check_and_award_badges db usr s)) usr = session_count_for_user db usr"
  by (simp add: session_count_for_user_def check_and_award_badges_frame)

text \<open>
  Claim C8. The evaluator grants exactly the catalog types whose trigger holds and that
  the user does not hold yet: a type already held is never granted again, a store with
  at most one grant per user and type keeps that property, and a second evaluation with
  the same user and session grants nothing. The triggers are those of \<open>badge_trigger\<close>.
\<close>

theorem badge_grants_idempotent:
  "fst (check_and_award_badges db usr s) =
     map (\<lambda>ty. \<lparr>badge_user_id = uid usr, badge_type = ty\<rparr>)
       (filter (\<lambda>ty. badge_trigger (session_count_for_user db usr) usr s ty
                     \<and> \<not> has_badge db (uid usr) ty) badge_catalog)
   \<and> badges (snd (check_and_award_badges db usr s)) =
       badges db @ fst (check_and_award_badges db usr s)
   \<and> (has_badge db (uid usr) ty \<longrightarrow>
        \<lparr>badge_user_id = uid usr, badge_type = ty\<rparr> \<notin> set (fst (check_and_award_badges db usr s)))
   \<and> ((\<forall>k t. grants db k t \<le> 1) \<longrightarrow>
        (\<forall>k t. grants (snd (check_and_award_badges db usr s)) k t \<le> 1))
   \<and> fst (check_and_award_badges (snd (check_and_award_badges db usr s)) usr s) = []"
proof (intro conjI impI allI)
  let ?P = "\<lambda>ty. badge_trigger (session_count_for_user db usr) usr s ty
                     \<and> \<not> has_badge db (uid usr) ty"
  let ?mk = "\<lambda>ty. \<lparr>badge_user_id = uid usr, badge_type = ty\<rparr>"
  let ?db' = "snd (check_and_award_badges db usr s)"
  show new: "fst (check_and_award_badges db usr s) = map ?mk (filter ?P badge_catalog)"
    by (rule new_badges_eq)
  show app: "badges ?db' = badges db @ fst (check_and_award_badges db usr s)"
    by (rule badges_after_check)
  show "?mk ty \<notin> set (fst (check_and_award_badges db usr s))" if "has_badge db (uid usr) ty"
    using that unfolding new by auto
  show "grants ?db' k t \<le> 1" if a: "\<forall>k t. grants db k t \<le> 1" for k t
  proof -
    have g: "grants ?db' k t = grants db k t
               + (if k = uid usr \<and> t \<in> set badge_catalog \<and> ?P t then 1 else 0)"
      unfolding grants_def app new filter_append length_append
      using count_new[OF distinct_badge_catalog, of k t "uid usr" ?P] by simp
    show ?thesis
    proof (cases "k = uid usr \<and> t \<in> set badge_catalog \<and> ?P t")
      case True
      then have "grants db k t = 0" using grants_zero[of db k t] by simp
      with g True show ?thesis by simp
    next
      case False
      with g a show ?thesis by simp
    qed
  qed
  show "fst (check_and_award_badges ?db' usr s) = []"
  proof -
    have "\<not> (badge_trigger (session_count_for_user db usr) usr s t
             \<and> \<not> has_badge ?db' (uid usr) t)" if "t \<in> set badge_catalog" for t
    proof
      assume h: "badge_trigger (session_count_for_user db usr) usr s t
             \<and> \<not> has_badge ?db' (uid usr) t"
      then have nh: "?mk t \<notin> set (badges db)" and nn: "?mk t \<notin> set (map ?mk (filter ?P badge_catalog))"
        unfolding has_badge_iff app new by auto
      from nh have "\<not> has_badge db (uid usr) t" by (simp add: has_badge_iff)
      with h that have "t \<in> set (filter ?P badge_catalog)" by simp
      with nn show False by auto
    qed
    then have "filter (\<lambda>ty. badge_trigger (session_count_for_user db usr) usr s ty
                     \<and> \<not> has_badge ?db' (uid usr) ty) badge_catalog = []"
      by (simp add: filter_empty_conv)
    then show ?thesis
      unfolding new_badges_eq[of ?db' usr s] session_count_after_check by simp
  qed
qed

theorem badge_grants_idempotent_witness:
  "has_badge demo_db_one_badge (uid demo_user_logged) ''streak_3''
   \<and> \<lparr>badge_user_id = uid demo_user_logged, badge_type = ''streak_3''\<rparr>
        \<notin> set (fst (check_and_award_badges demo_db_one_badge demo_user_logged demo_session))
   \<and> (\<forall>k t. grants demo_db_one_badge k t \<le> 1)
   \<and> (\<forall>k t. grants (snd (check_and_award_badges demo_db_one_badge demo_user_logged demo_session))
               k t \<le> 1)
   \<and> fst (check_and_award_badges demo_db_one_badge demo_user_logged demo_session) =
        [\<lparr>badge_user_id = 1, badge_type = ''first_session''\<rparr>,
         \<lparr>badge_user_id = 1, badge_type = ''perfect_focus''\<rparr>,
         \<lparr>badge_user_id = 1, badge_type = ''early_bird''\<rparr>]
   \<and> fst (check_and_award_badges
             (snd (check_and_award_badges demo_db_one_badge demo_user_logged demo_session))
             demo_user_logged demo_session) = []"
proof -
  note t = badge_grants_idempotent
             [of demo_db_one_badge demo_user_logged demo_session "''streak_3''"]
  have h1: "has_badge demo_db_one_badge (uid demo_user_logged) ''streak_3''"
    by code_simp
  have h2: "\<forall>k t. grants demo_db_one_badge k t \<le> 1"
    by (simp add: grants_def demo_db_one_badge_def)
  have e: "fst (check_and_award_badges demo_db_one_badge demo_user_logged demo_session) =
        [\<lparr>badge_user_id = 1, badge_type = ''first_session''\<rparr>,
         \<lparr>badge_user_id = 1, badge_type = ''perfect_focus''\<rparr>,
         \<lparr>badge_user_id = 1, badge_type = ''early_bird''\<rparr>]"
    by code_simp
  from t h1 have c1: "\<lparr>badge_user_id = uid demo_user_logged, badge_type = ''streak_3''\<rparr>
        \<notin> set (fst (check_and_award_badges demo_db_one_badge demo_user_logged demo_session))"
    by blast
  from t h2 have c2: "\<forall>k t. grants (snd (check_and_award_badges demo_db_one_badge
                                             demo_user_logged demo_session)) k t \<le> 1"
    by blast
  from t have c3: "fst (check_and_award_badges
             (snd (check_and_award_badges demo_db_one_badge demo_user_logged demo_session))
             demo_user_logged demo_session) = []"
    by blast
  from h1 h2 e c1 c2 c3 show ?thesis by blast
qed

section \<open>Weekly leaderboard\<close>

lemma sort_reverse_mset: "mset (sort_reverse key xs) = mset xs"
  by (simp add: sort_reverse_def)

lemma sort_reverse_length: "length (sort_reverse key xs) = length xs"
  by (simp add: sort_reverse_def)

lemma sort_reverse_set: "set (sort_reverse key xs) = set xs"
  by (simp add: sort_reverse_def)

lemma sort_reverse_descending:
  "sorted_wrt (\<lambda>a b. key b \<le> key a) (sort_reverse key xs)"
proof -
  have "sorted (map key (sort_key key (rev xs)))" by (rule sorted_sort_key)
  then have "sorted_wrt (\<lambda>a b. key a \<le> key b) (sort_key key (rev xs))"
    by (simp add: sorted_map)
  then show ?thesis by (simp add: sort_reverse_def sorted_wrt_rev)
qed

lemma sort_reverse_stable:
  "filter (\<lambda>y. key y = m) (sort_reverse key xs) = filter (\<lambda>y. key y = m) xs"
  by (simp add: sort_reverse_def sort_key_stable flip: rev_filter)

lemma ranked_fields:
  "map entry_user (map (\<lambda>(i, entry). entry\<lparr>rank := int i + 1\<rparr>) (enumerate n xs)) = map entry_user xs"
  "map weekly_minutes (map (\<lambda>(i, entry). entry\<lparr>rank := int i + 1\<rparr>) (enumerate n xs))
     = map weekly_minutes xs"
  "map weekly_points (map (\<lambda>(i, entry). entry\<lparr>rank := int i + 1\<rparr>) (enumerate n xs))
     = map weekly_points xs"
  by (induction xs arbitrary: n) auto

lemma ranked_ranks:
  "map rank (map (\<lambda>(i, entry). entry\<lparr>rank := int i + 1\<rparr>) (enumerate n xs))
     = [int n + 1 .. int n + int (length xs)]"
proof (induction xs arbitrary: n)
  case Nil
  then show ?case by simp
next
  case (Cons x xs)
  have "[int n + 1 .. int n + int (length (x # xs))]
          = (int n + 1) # [int (Suc n) + 1 .. int (Suc n) + int (length xs)]"
    by (subst upto_rec1) (auto simp: algebra_simps)
  with Cons.IH[of "Suc n"] show ?case by simp
qed

lemma ranked_filter:
  "map entry_user (filter (\<lambda>e. weekly_minutes e = m)
       (map (\<lambda>(i, entry). entry\<lparr>rank := int i + 1\<rparr>) (enumerate n xs)))
     = map entry_user (filter (\<lambda>e. weekly_minutes e = m) xs)"
  by (induction xs arbitrary: n) auto

lemma weekday_range: "0 \<le> weekday d \<and> weekday d \<le> 6"
  by (simp add: weekday_def)

lemma week_start_monday: "weekday (d - weekday d) = 0"
  unfolding weekday_def by presburger

lemma ranked_set:
  assumes "e \<in> set (map (\<lambda>(i, entry). entry\<lparr>rank := int i + 1\<rparr>) (enumerate n xs))"
  shows "\<exists>x\<in>set xs. entry_user e = entry_user x \<and> weekly_minutes e = weekly_minutes x
             \<and> weekly_points e = weekly_points x"
proof -
  from assms obtain i x where ix: "(i, x) \<in> set (enumerate n xs)" "e = x\<lparr>rank := int i + 1\<rparr>"
    by auto
  from ix(1) have "snd (i, x) \<in> snd ` set (enumerate n xs)" by (rule imageI)
  then have "x \<in> set (map snd (enumerate n xs))" by (simp only: set_map snd_conv)
  then have "x \<in> set xs" by (simp only: map_snd_enumerate)
  with ix(2) show ?thesis by auto
qed

lemma week_window_days:
  "week_window m = [m, m + 1, m + 2, m + 3, m + 4, m + 5, m + 6]"
  by (simp add: week_window_def upt_rec)

lemma week_window_iff: "d \<in> set (week_window m) \<longleftrightarrow> m \<le> d \<and> d \<le> m + 6"
  unfolding week_window_days by auto

lemma weekday_shift:
  assumes "weekday m = 0" "0 \<le> i" "i < 7"
  shows "weekday (m + i) = i"
proof -
  have "(m + i + 6) mod 7 = ((m + 6) + i) mod 7" by (simp add: algebra_simps)
  also have "\<dots> = ((m + 6) mod 7 + i) mod 7" by (simp only: mod_add_left_eq)
  finally show ?thesis using assms by (simp add: weekday_def)
qed

lemma week_window_weekdays:
  assumes "weekday m = 0"
  shows "map weekday (week_window m) = [0, 1, 2, 3, 4, 5, 6]"
  using assms weekday_shift[OF assms, of 1] weekday_shift[OF assms, of 2]
    weekday_shift[OF assms, of 3] weekday_shift[OF assms, of 4]
    weekday_shift[OF assms, of 5] weekday_shift[OF assms, of 6]
  by (simp add: week_window_days)

lemma window_sessions_code:
  "window_sessions db m u = weekly_sessions db m (m + 6) u"
  by (simp add: window_sessions_def weekly_sessions_def week_window_iff)

lemma demo_create_negative_duration_run:
  "snd (create_practice_session 100 demo_pair_db demo_create_negative_duration) =
     demo_pair_db_logged"
  by code_simp

text \<open>
  Claim C7 says that members without minutes in the week appear at the bottom of the
  leaderboard. The order is by weekly minutes, and a duration may be negative: after the
  second of two members has logged minus 10 minutes, the member without sessions is
  ranked first with 0 minutes and the other second with minus 10.
\<close>

theorem leaderboard_zero_minutes_on_top_counterexample:
  "snd (create_practice_session 100 demo_pair_db demo_create_negative_duration) =
     demo_pair_db_logged
   \<and> map uid (map entry_user (entries (get_weekly_leaderboard 100 demo_pair_db_logged 1))) =
       [1, 2]
   \<and> map weekly_minutes (entries (get_weekly_leaderboard 100 demo_pair_db_logged 1)) =
       [0, - 10]
   \<and> map rank (entries (get_weekly_leaderboard 100 demo_pair_db_logged 1)) = [1, 2]"
proof -
  have "map uid (map entry_user (entries (get_weekly_leaderboard 100 demo_pair_db_logged 1))) =
       [1, 2]" by code_simp
  moreover have
    "map weekly_minutes (entries (get_weekly_leaderboard 100 demo_pair_db_logged 1)) =
       [0, - 10]" by code_simp
  moreover have "map rank (entries (get_weekly_leaderboard 100 demo_pair_db_logged 1)) = [1, 2]"
    by code_simp
  ultimately show ?thesis using demo_create_negative_duration_run by simp
qed

text \<open>
  Claim C7, as the code satisfies it. The leaderboard covers the Monday-to-Sunday week that contains
  today: its period starts on a Monday, the seven days from it run from Monday to Sunday
  and contain today, and the period ends on the last of them. It has one entry per
  ensemble member, carrying the member's minutes and points summed over the member's
  sessions whose calendar date is one of these seven days; the ranks are \<open>1, \<dots>, N\<close> in
  list order; the entries are in descending order of weekly minutes; members with equal
  minutes appear in the order of the member list; a member without sessions in the week
  has zero minutes and zero points. Nothing with more than zero minutes follows a
  zero-minute entry, and when no stored duration is negative nothing but zero-minute
  entries follows it.
\<close>

theorem weekly_leaderboard_ranking:
  fixes today :: date and db :: database and k :: int
  defines "board \<equiv> get_weekly_leaderboard today db k"
  defines "ws \<equiv> period_start board"
  defines "members \<equiv> get_ensemble_members db k"
  defines "mm \<equiv> \<lambda>u. sum_list (map duration_minutes (window_sessions db ws u))"
  defines "mp \<equiv> \<lambda>u. sum_list (map points_earned (window_sessions db ws u))"
  defines "es \<equiv> entries board"
  shows "map weekday (week_window ws) = [0, 1, 2, 3, 4, 5, 6]
         \<and> today \<in> set (week_window ws)
         \<and> period_end board = last (week_window ws)
         \<and> ws = today - weekday today \<and> period_end board = ws + 6
         \<and> map rank es = [1 .. int (length members)]
         \<and> mset (map entry_user es) = mset members
         \<and> (\<forall>e\<in>set es. weekly_minutes e = mm (entry_user e)
                        \<and> weekly_points e = mp (entry_user e))
         \<and> sorted_wrt (\<lambda>a b. weekly_minutes b \<le> weekly_minutes a) es
         \<and> (\<forall>m. map entry_user (filter (\<lambda>e. weekly_minutes e = m) es)
                  = filter (\<lambda>u. mm u = m) members)
         \<and> (\<forall>e\<in>set es. window_sessions db ws (entry_user e) = [] \<longrightarrow>
                 weekly_minutes e = 0 \<and> weekly_points e = 0)
         \<and> (\<forall>i j. i < j \<and> j < length es \<and> weekly_minutes (es ! i) = 0 \<longrightarrow>
                  weekly_minutes (es ! j) \<le> 0)
         \<and> ((\<forall>s\<in>set (practice_sessions db). 0 \<le> duration_minutes s) \<longrightarrow>
              (\<forall>i j. i < j \<and> j < length es \<and> weekly_minutes (es ! i) = 0 \<longrightarrow>
                     weekly_minutes (es ! j) = 0))"
proof -
  define mk where
    "mk = (\<lambda>u. \<lparr>rank = 0, entry_user = u, weekly_minutes = mm u, weekly_points = mp u\<rparr>)"
  define ordered where "ordered = sort_reverse weekly_minutes (map mk members)"
  have ws: "ws = today - weekday today"
    by (simp add: ws_def board_def get_weekly_leaderboard_def Let_def)
  have pe: "period_end board = ws + 6"
    by (simp add: ws board_def get_weekly_leaderboard_def Let_def)
  have mon: "weekday ws = 0" unfolding ws by (rule week_start_monday)
  have days: "map weekday (week_window ws) = [0, 1, 2, 3, 4, 5, 6]"
    using mon by (rule week_window_weekdays)
  have inw: "today \<in> set (week_window ws)"
    using weekday_range[of today] by (simp add: week_window_iff ws)
  have lastd: "period_end board = last (week_window ws)"
    by (simp add: pe week_window_days)
  have es: "es = map (\<lambda>(i, entry). entry\<lparr>rank := int i + 1\<rparr>) (enumerate 0 ordered)"
    by (simp add: es_def board_def get_weekly_leaderboard_def Let_def ordered_def mk_def mm_def
          mp_def members_def window_sessions_code ws)
  have len: "length ordered = length members"
    by (simp add: ordered_def sort_reverse_length)
  have ranks: "map rank es = [1 .. int (length members)]"
    using ranked_ranks[of 0 ordered] by (simp add: es len)
  have mkm: "map entry_user (map mk members) = members"
    by (simp add: mk_def comp_def)
  have "mset (map entry_user ordered) = mset (map entry_user (map mk members))"
    unfolding ordered_def by (simp only: mset_map sort_reverse_mset)
  then have perm: "mset (map entry_user es) = mset members"
    unfolding es ranked_fields(1) mkm .
  have vals: "weekly_minutes e = mm (entry_user e) \<and> weekly_points e = mp (entry_user e)"
    if "e \<in> set es" for e
  proof -
    from that obtain x where x: "x \<in> set ordered" "entry_user e = entry_user x"
      "weekly_minutes e = weekly_minutes x" "weekly_points e = weekly_points x"
      unfolding es using ranked_set by blast
    from x(1) have "x \<in> set (map mk members)" by (simp add: ordered_def sort_reverse_set)
    then obtain u where "x = mk u" by auto
    with x show ?thesis by (simp add: mk_def)
  qed
  have "sorted_wrt (\<lambda>a b. weekly_minutes b \<le> weekly_minutes a) ordered"
    unfolding ordered_def by (rule sort_reverse_descending)
  then have "sorted_wrt (\<lambda>a b. b \<le> a) (map weekly_minutes ordered)"
    by (simp add: sorted_wrt_map)
  then have "sorted_wrt (\<lambda>a b. b \<le> a) (map weekly_minutes es)"
    unfolding es ranked_fields(2) .
  then have desc: "sorted_wrt (\<lambda>a b. weekly_minutes b \<le> weekly_minutes a) es"
    by (simp add: sorted_wrt_map)
  have stable: "map entry_user (filter (\<lambda>e. weekly_minutes e = m) es)
                  = filter (\<lambda>u. mm u = m) members" for m
  proof -
    have "map entry_user (filter (\<lambda>e. weekly_minutes e = m) es)
            = map entry_user (filter (\<lambda>e. weekly_minutes e = m) ordered)"
      unfolding es by (rule ranked_filter)
    also have "\<dots> = map entry_user (filter (\<lambda>e. weekly_minutes e = m) (map mk members))"
      by (simp add: ordered_def sort_reverse_stable)
    also have "\<dots> = filter (\<lambda>u. mm u = m) members"
      by (simp add: filter_map comp_def mk_def)
    finally show ?thesis .
  qed
  have zero: "weekly_minutes e = 0 \<and> weekly_points e = 0"
    if "e \<in> set es" "window_sessions db ws (entry_user e) = []" for e
    using vals[OF that(1)] that(2) by (simp add: mm_def mp_def)
  have below: "weekly_minutes (es ! j) \<le> 0"
    if ij: "i < j" "j < length es" "weekly_minutes (es ! i) = 0" for i j
  proof -
    have "weekly_minutes (es ! j) \<le> weekly_minutes (es ! i)"
      using desc ij(1,2) by (auto simp: sorted_wrt_iff_nth_less)
    then show ?thesis using ij(3) by simp
  qed
  have bottom: "weekly_minutes (es ! j) = 0"
    if nn: "\<forall>s\<in>set (practice_sessions db). 0 \<le> duration_minutes s"
      and ij: "i < j" "j < length es" "weekly_minutes (es ! i) = 0" for i j
  proof -
    have "0 \<le> mm u" for u
      unfolding mm_def window_sessions_def using nn by (intro sum_list_nonneg) auto
    then have "0 \<le> weekly_minutes (es ! j)"
      using vals[of "es ! j"] ij(2) by simp
    with below[OF ij] show ?thesis by simp
  qed
  have A: "\<forall>e\<in>set es. weekly_minutes e = mm (entry_user e)
                        \<and> weekly_points e = mp (entry_user e)"
    using vals by blast
  have B: "\<forall>m. map entry_user (filter (\<lambda>e. weekly_minutes e = m) es)
                  = filter (\<lambda>u. mm u = m) members"
    using stable by blast
  have C: "\<forall>e\<in>set es. window_sessions db ws (entry_user e) = [] \<longrightarrow>
                 weekly_minutes e = 0 \<and> weekly_points e = 0"
    using zero by blast
  have D: "\<forall>i j. i < j \<and> j < length es \<and> weekly_minutes (es ! i) = 0 \<longrightarrow>
                  weekly_minutes (es ! j) \<le> 0"
    using below by blast
  have E: "(\<forall>s\<in>set (practice_sessions db). 0 \<le> duration_minutes s) \<longrightarrow>
              (\<forall>i j. i < j \<and> j < length es \<and> weekly_minutes (es ! i) = 0 \<longrightarrow>
                     weekly_minutes (es ! j) = 0)"
    using bottom by blast
  show ?thesis
    using days inw lastd ws pe ranks perm A desc B C D E
    by (intro conjI) assumption+
qed

theorem weekly_leaderboard_ranking_witness:
  "list_all (\<lambda>s. 0 \<le> duration_minutes s) (practice_sessions demo_ensemble_db)
   \<and> map rank (entries (get_weekly_leaderboard 100 demo_ensemble_db 1)) = [1, 2, 3, 4]
   \<and> map uid (map entry_user (entries (get_weekly_leaderboard 100 demo_ensemble_db 1)))
        = [3, 2, 1, 5]
   \<and> map weekly_minutes (entries (get_weekly_leaderboard 100 demo_ensemble_db 1))
        = [120, 60, 0, 0]
   \<and> map weekly_points (entries (get_weekly_leaderboard 100 demo_ensemble_db 1))
        = [120, 60, 0, 0]
   \<and> period_start (get_weekly_leaderboard 100 demo_ensemble_db 1) = 99
   \<and> period_end (get_weekly_leaderboard 100 demo_ensemble_db 1) = 105
   \<and> week_window 99 = [99, 100, 101, 102, 103, 104, 105]
   \<and> map weekday (week_window 99) = [0, 1, 2, 3, 4, 5, 6]
   \<and> map (\<lambda>e. map sid (window_sessions demo_ensemble_db 99 (entry_user e)))
         (entries (get_weekly_leaderboard 100 demo_ensemble_db 1)) = [[4], [3, 6], [], []]
   \<and> weekly_minutes (entries (get_weekly_leaderboard 100 demo_ensemble_db 1) ! 3) = 0"
proof -
  note t = weekly_leaderboard_ranking[of 100 demo_ensemble_db 1]
  have wd: "(100::int) - weekday 100 = 99" by code_simp
  have h: "list_all (\<lambda>s. 0 \<le> duration_minutes s) (practice_sessions demo_ensemble_db)"
    by code_simp
  have n: "int (length (get_ensemble_members demo_ensemble_db 1)) = 4" by code_simp
  have l: "length (entries (get_weekly_leaderboard 100 demo_ensemble_db 1)) = 4" by code_simp
  have z: "weekly_minutes (entries (get_weekly_leaderboard 100 demo_ensemble_db 1) ! 2) = 0"
    by code_simp
  have u: "map uid (map entry_user (entries (get_weekly_leaderboard 100 demo_ensemble_db 1)))
        = [3, 2, 1, 5]" by code_simp
  have m: "map weekly_minutes (entries (get_weekly_leaderboard 100 demo_ensemble_db 1))
        = [120, 60, 0, 0]" by code_simp
  have p: "map weekly_points (entries (get_weekly_leaderboard 100 demo_ensemble_db 1))
        = [120, 60, 0, 0]" by code_simp
  have w: "week_window 99 = [99, 100, 101, 102, 103, 104, 105]" by code_simp
  have ss: "map (\<lambda>e. map sid (window_sessions demo_ensemble_db 99 (entry_user e)))
         (entries (get_weekly_leaderboard 100 demo_ensemble_db 1)) = [[4], [3, 6], [], []]"
    by code_simp
  have up: "[1 .. (4::int)] = [1, 2, 3, 4]" by code_simp
  from t have ps: "period_start (get_weekly_leaderboard 100 demo_ensemble_db 1) = 99"
    by (simp add: wd)
  from t have "map rank (entries (get_weekly_leaderboard 100 demo_ensemble_db 1))
                 = [1 .. int (length (get_ensemble_members demo_ensemble_db 1))]" by blast
  then have c1: "map rank (entries (get_weekly_leaderboard 100 demo_ensemble_db 1)) = [1, 2, 3, 4]"
    by (simp only: n up)
  from t have c2: "period_end (get_weekly_leaderboard 100 demo_ensemble_db 1) = 105"
    "map weekday (week_window 99) = [0, 1, 2, 3, 4, 5, 6]"
    by (simp_all add: ps)
  from h have h': "\<forall>s\<in>set (practice_sessions demo_ensemble_db). 0 \<le> duration_minutes s"
    by (simp add: list_all_iff)
  from t h' have "\<forall>i j. i < j \<and> j < length (entries (get_weekly_leaderboard 100 demo_ensemble_db 1))
           \<and> weekly_minutes (entries (get_weekly_leaderboard 100 demo_ensemble_db 1) ! i) = 0 \<longrightarrow>
           weekly_minutes (entries (get_weekly_leaderboard 100 demo_ensemble_db 1) ! j) = 0"
    by blast
  from this[rule_format, of 2 3] l z
  have c3: "weekly_minutes (entries (get_weekly_leaderboard 100 demo_ensemble_db 1) ! 3) = 0"
    by simp
  from h c1 u m p ps c2 w ss c3 show ?thesis by simp
qed

section \<open>Stored readiness after a session changes\<close>

text \<open>
  \<^verbatim>\<open>create_practice_session\<close> calls the scorer while the link row of the new session is
  still pending, so the score it stores counts the new minutes but not the new ratings:
  15 minutes with focus 5 on a task of 30 minutes store 50, and the scorer on the
  resulting store gives 41.67.
\<close>

lemma create_scores_before_link_is_stored:
  "get_task (snd (create_practice_session 100 demo_db demo_create_partly_rated)) 1 =
     Some (demo_task\<lparr>total_time_practiced := 15, practice_count := 1, status := IN_PROGRESS,
                      readiness_score := 50\<rparr>)
   \<and> calculate_task_readiness
         (snd (create_practice_session 100 demo_db demo_create_partly_rated))
         (demo_task\<lparr>total_time_practiced := 15, practice_count := 1, status := IN_PROGRESS,
                    readiness_score := 50\<rparr>) = Inr (2932031007402667 / 70368744177664)"
proof -
  have "get_task (snd (create_practice_session 100 demo_db demo_create_partly_rated)) 1 =
     Some (demo_task\<lparr>total_time_practiced := 15, practice_count := 1, status := IN_PROGRESS,
                      readiness_score := 50\<rparr>)"
    by code_simp
  moreover have "calculate_task_readiness
         (snd (create_practice_session 100 demo_db demo_create_partly_rated))
         (demo_task\<lparr>total_time_practiced := 15, practice_count := 1, status := IN_PROGRESS,
                    readiness_score := 50\<rparr>) = Inr (2932031007402667 / 70368744177664)"
    by code_simp
  ultimately show ?thesis by simp
qed

text \<open>
  Claim C9 says that the stored \<^verbatim>\<open>readiness_score\<close> of a task is recomputed whenever a
  session touching it is created, re-rated or deleted. Only
  \<^verbatim>\<open>create_practice_session\<close> calls the scorer. In the worked example the stored score is
  100 after the session is logged; re-rating the session to focus 2 leaves the task row as
  it was, with the score of 100, although the scorer on the resulting store gives 90.
\<close>

theorem readiness_stale_after_update:
  "get_task demo_db_logged 1 = Some demo_task_logged
   \<and> readiness_score demo_task_logged = 100
   \<and> calculate_task_readiness demo_db_logged demo_task_logged = Inr 100
   \<and> update_practice_session demo_db_logged 1 demo_update =
       (Inr (Some demo_session_rerated), demo_db_rerated)
   \<and> get_task demo_db_rerated 1 = Some demo_task_logged
   \<and> calculate_task_readiness demo_db_rerated demo_task_logged = Inr 90"
proof -
  have "get_task demo_db_rerated 1 = Some demo_task_logged" by code_simp
  moreover have "readiness_score demo_task_logged = 100" by code_simp
  moreover have "calculate_task_readiness demo_db_logged demo_task_logged = Inr 100"
    by code_simp
  moreover have "calculate_task_readiness demo_db_rerated demo_task_logged = Inr 90"
    by code_simp
  ultimately show ?thesis using demo_update_run demo_lookups by simp
qed

section \<open>Points below zero\<close>


section \<open>Rounding to binary64\<close>

lemma bitlen_pos: "0 < n \<Longrightarrow> 1 \<le> bitlen n"
  by (simp add: bitlen_alt_def)

lemma ilog2_bounds:
  assumes "0 < x"
  shows "2 powi (ilog2 x) \<le> x \<and> x < 2 powi (ilog2 x + 1)"
proof (cases "1 \<le> x")
  case True
  define n where "n = \<lfloor>x\<rfloor>"
  have n1: "1 \<le> n" using True by (simp add: n_def le_floor_iff)
  have bl: "1 \<le> bitlen n" using n1 by (simp add: bitlen_pos)
  have b: "2 ^ nat (bitlen n - 1) \<le> n" "n < 2 ^ nat (bitlen n)"
    using bitlen_bounds[of n] n1 by auto
  have e: "ilog2 x = bitlen n - 1" using True by (simp add: ilog2_def n_def)
  have p1: "(2::rat) powi (bitlen n - 1) = 2 ^ nat (bitlen n - 1)"
    using bl by (simp add: power_int_def)
  have p2: "(2::rat) powi (bitlen n) = 2 ^ nat (bitlen n)"
    using bl by (simp add: power_int_def)
  have "(of_int (2 ^ nat (bitlen n - 1)) :: rat) \<le> of_int n"
    using b(1) of_int_le_iff by blast
  also have "\<dots> \<le> x" by (simp add: n_def)
  finally have lo: "2 powi (ilog2 x) \<le> x" by (simp add: e p1)
  have "n + 1 \<le> 2 ^ nat (bitlen n)" using b(2) by simp
  then have "(of_int (n + 1) :: rat) \<le> of_int (2 ^ nat (bitlen n))"
    using of_int_le_iff by blast
  moreover have "x < of_int (n + 1)" unfolding n_def using floor_correct[of x] by simp
  ultimately have "x < 2 powi (ilog2 x + 1)" by (simp add: e p2)
  with lo show ?thesis by simp
next
  case False
  then have x1: "x < 1" by simp
  define c where "c = \<lceil>1 / x\<rceil>"
  define k where "k = bitlen (c - 1)"
  have "1 < 1 / x" using assms x1 by simp
  then have c2: "2 \<le> c" unfolding c_def by (simp add: less_ceiling_iff) 
  have k1: "1 \<le> k" unfolding k_def using c2 by (simp add: bitlen_pos)
  have b: "2 ^ nat (k - 1) \<le> c - 1" "c - 1 < 2 ^ nat k"
    using bitlen_bounds[of "c - 1"] c2 by (auto simp: k_def)
  have e: "ilog2 x = - k" using False by (simp add: ilog2_def c_def k_def)
  have "1 / x \<le> of_int c" by (simp add: c_def)
  also have "(of_int c :: rat) \<le> of_int (2 ^ nat k)"
    using b(2) of_int_le_iff[of c "2 ^ nat k"] by linarith
  finally have "1 / x \<le> 2 ^ nat k" by simp
  then have "1 \<le> 2 ^ nat k * x" using assms by (simp add: field_simps)
  then have "1 / 2 ^ nat k \<le> x" by (simp add: field_simps)
  moreover have "(2::rat) powi (- k) = 1 / 2 ^ nat k"
    using k1 by (simp add: power_int_def field_simps)
  ultimately have lo: "2 powi (ilog2 x) \<le> x" by (simp add: e)
  have "(of_int (2 ^ nat (k - 1)) :: rat) \<le> of_int (c - 1)"
    using b(1) of_int_le_iff by blast
  moreover have "of_int (c - 1) < 1 / x"
    unfolding c_def using ceiling_correct[of "1 / x"] by simp
  ultimately have "2 ^ nat (k - 1) < 1 / x" by simp
  then have "2 ^ nat (k - 1) * x < 1" using assms by (simp add: field_simps)
  then have "x < 1 / 2 ^ nat (k - 1)" by (simp add: field_simps)
  moreover have "(2::rat) powi (- k + 1) = 1 / 2 ^ nat (k - 1)"
  proof -
    have "- k + 1 = - (k - 1)" by simp
    moreover have "0 \<le> k - 1" using k1 by simp
    ultimately show ?thesis
      by (cases "k = 1") (simp_all add: power_int_def field_simps)
  qed
  ultimately have "x < 2 powi (ilog2 x + 1)" by (simp add: e)
  with lo show ?thesis by simp
qed

lemma ilog2_unique:
  assumes "0 < x" "2 powi e \<le> x" "x < 2 powi (e + 1)"
  shows "ilog2 x = e"
proof -
  from ilog2_bounds[OF assms(1)]
  have b: "2 powi (ilog2 x) \<le> x" "x < 2 powi (ilog2 x + 1)" by auto
  have lt1: "(2::rat) powi e < 2 powi (ilog2 x + 1)" using assms(2) b(2) by simp
  have "e < ilog2 x + 1"
  proof (rule ccontr)
    assume "\<not> e < ilog2 x + 1"
    then have "(2::rat) powi (ilog2 x + 1) \<le> 2 powi e"
      by (intro power_int_increasing) auto
    with lt1 show False by simp
  qed
  moreover have lt2: "(2::rat) powi (ilog2 x) < 2 powi (e + 1)" using assms(3) b(1) by simp
  have "ilog2 x < e + 1"
  proof (rule ccontr)
    assume "\<not> ilog2 x < e + 1"
    then have "(2::rat) powi (e + 1) \<le> 2 powi (ilog2 x)"
      by (intro power_int_increasing) auto
    with lt2 show False by simp
  qed
  ultimately show ?thesis by simp
qed

lemma rhe_of_int: "round_half_even (of_int n) = n"
  by (simp add: round_half_even_def)

lemma rhe_err: "\<bar>of_int (round_half_even q) - q\<bar> \<le> 1 / 2"
  using floor_correct[of q] by (auto simp: round_half_even_def Let_def abs_le_iff)

lemma rhe_near:
  assumes "of_int n - 1 / 2 < q" "q < of_int n + 1 / 2"
  shows "round_half_even q = n"
proof (cases "of_int n \<le> q")
  case True
  then have "\<lfloor>q\<rfloor> = n" using assms(2) by (intro floor_unique) auto
  then show ?thesis using assms(2) by (simp add: round_half_even_def)
next
  case False
  then have "\<lfloor>q\<rfloor> = n - 1" using assms(1) by (intro floor_unique) auto
  then show ?thesis using assms(1) by (simp add: round_half_even_def)
qed

lemma rhe_nonneg: "0 \<le> q \<Longrightarrow> 0 \<le> round_half_even q"
  by (auto simp: round_half_even_def Let_def)

lemma fl_pos:
  "0 < x \<Longrightarrow>
   fl x = of_int (round_half_even (x / 2 powi (ilog2 x - 52))) * 2 powi (ilog2 x - 52)"
  by (simp add: fl_def Let_def)

lemma fl_binade:
  assumes "0 < x" "2 powi e \<le> x" "x < 2 powi (e + 1)"
  shows "fl x = of_int (round_half_even (x / 2 powi (e - 52))) * 2 powi (e - 52)"
  using fl_pos[OF assms(1)] ilog2_unique[OF assms] by simp

lemma fl_nonneg: "0 \<le> x \<Longrightarrow> 0 \<le> fl x"
  by (cases "x = 0") (auto simp: fl_def Let_def sgn_if rhe_nonneg)

lemma fl_err_ulp:
  assumes "0 < x"
  shows "\<bar>fl x - x\<bar> \<le> 2 powi (ilog2 x - 52) / 2"
proof -
  define u :: rat where "u = 2 powi (ilog2 x - 52)"
  have u0: "0 < u" by (simp add: u_def)
  define q where "q = x / u"
  have "fl x - x = (of_int (round_half_even q) - q) * u"
    using u0 by (simp add: fl_pos[OF assms] u_def[symmetric] q_def field_simps)
  then have "\<bar>fl x - x\<bar> = \<bar>of_int (round_half_even q) - q\<bar> * u"
    using u0 by (simp add: abs_mult)
  also have "\<dots> \<le> (1 / 2) * u"
    using rhe_err[of q] u0 by (intro mult_right_mono) auto
  finally show ?thesis by (simp add: u_def)
qed

lemma fl_err_rel:
  assumes "0 < x"
  shows "\<bar>fl x - x\<bar> \<le> x / 2 ^ 53"
proof -
  have "(2::rat) powi (ilog2 x - 52) / 2 = 2 powi (ilog2 x) / 2 ^ 53"
    by (simp add: power_int_diff)
  also have "\<dots> \<le> x / 2 ^ 53"
    using ilog2_bounds[OF assms] by (simp add: divide_right_mono)
  finally show ?thesis using fl_err_ulp[OF assms] by simp
qed

lemma pow2_mod3: "(2::int) ^ k mod 3 = 1 \<or> (2::int) ^ k mod 3 = 2"
proof (induction k)
  case 0
  show ?case by simp
next
  case (Suc k)
  have "(2::int) ^ Suc k mod 3 = (2 * (2 ^ k mod 3)) mod 3"
    by (simp add: mod_mult_right_eq)
  with Suc show ?case by auto
qed

lemma three_not_pow2: "(3::int) * m \<noteq> 2 ^ k"
proof
  assume "3 * m = 2 ^ k"
  then have "(2::int) ^ k mod 3 = 0" by (metis mod_mult_self1_is_0)
  with pow2_mod3[of k] show False by simp
qed

lemma powi_less_cancel:
  assumes "(2::rat) powi a < 2 powi b"
  shows "a < b"
proof (rule ccontr)
  assume "\<not> a < b"
  then have "(2::rat) powi b \<le> 2 powi a" by (intro power_int_increasing) auto
  with assms show False by simp
qed

lemma fl_half_int:
  assumes "0 < j" "j < 2 ^ 53"
  shows "fl (of_int j / 2) = of_int j / 2"
proof -
  define x :: rat where "x = of_int j / 2"
  have x0: "0 < x" using assms(1) by (simp add: x_def)
  define e where "e = ilog2 x"
  have b: "2 powi e \<le> x" "x < 2 powi (e + 1)"
    using ilog2_bounds[OF x0] by (simp_all add: e_def)
  have "(of_int j :: rat) < of_int (2 ^ 53)" using assms(2) of_int_less_iff by blast
  then have "x < 2 powi 52" by (simp add: x_def)
  with b(1) have "(2::rat) powi e < 2 powi 52" by simp
  then have e51: "e \<le> 51" using powi_less_cancel[of e 52] by simp
  have "x / 2 powi (e - 52) = of_int j * 2 powi (51 - e)"
    by (simp add: x_def power_int_diff field_simps)
  also have "(2::rat) powi (51 - e) = of_int (2 ^ nat (51 - e))"
    using e51 by (simp add: power_int_def)
  finally have q: "x / 2 powi (e - 52) = of_int (j * 2 ^ nat (51 - e))" by simp
  have "fl x = of_int (j * 2 ^ nat (51 - e)) * 2 powi (e - 52)"
    using fl_pos[OF x0] by (simp add: e_def[symmetric] q rhe_of_int del: of_int_mult of_int_power)
  also have "\<dots> = of_int j * (2 powi (51 - e) * 2 powi (e - 52))"
    using e51 by (simp add: power_int_def)
  also have "(2::rat) powi (51 - e) * 2 powi (e - 52) = 2 powi (- 1)"
    by (simp flip: power_int_add)
  finally show ?thesis by (simp add: x_def power_int_minus)
qed

lemma fl_six_fifths: "fl (6 / 5) = 5404319552844595 / 2 ^ 52"
  by code_simp

lemma fl_times_M_exact:
  assumes "0 < m" "3 * m < 2 ^ 53"
  shows "fl (of_int (5 * m) / 2 * fl (6 / 5)) = of_int (3 * m)"
proof -
  define x :: rat where "x = of_int (5 * m) / 2 * fl (6 / 5)"
  define n where "n = 3 * m"
  have xn: "x = of_int n - of_int m / 2 ^ 53"
    by (simp add: x_def n_def fl_six_fifths field_simps)
  have n0: "0 < n" using assms(1) by (simp add: n_def)
  define e where "e = ilog2 (of_int n)"
  have b: "2 powi e \<le> (of_int n :: rat)" "(of_int n :: rat) < 2 powi (e + 1)"
    using ilog2_bounds[of "of_int n"] n0 by (simp_all add: e_def)
  have e0: "0 \<le> e"
  proof -
    have "(1::rat) \<le> of_int n" using n0 by (simp add: int_one_le_iff_zero_less)
    then have "(2::rat) powi 0 < 2 powi (e + 1)" using b(2) by simp
    then show ?thesis using powi_less_cancel[of 0 "e + 1"] by simp
  qed
  have e52: "e \<le> 52"
  proof -
    have "(of_int n :: rat) < of_int (2 ^ 53)" using assms(2) of_int_less_iff n_def by blast
    with b(1) have "(2::rat) powi e < 2 powi 53" by simp
    then show ?thesis using powi_less_cancel[of e 53] by simp
  qed
  have pe: "(2::rat) powi e = of_int (2 ^ nat e)" using e0 by (simp add: power_int_def)
  have pe1: "(2::rat) powi (e + 1) = of_int (2 ^ nat (e + 1))" using e0 by (simp add: power_int_def)
  have le_i: "2 ^ nat e \<le> n" using b(1) unfolding pe by (simp only: of_int_le_iff)
  have lt_i: "n < 2 ^ nat (e + 1)" using b(2) unfolding pe1 by (simp only: of_int_less_iff)
  have "n \<noteq> 2 ^ nat e" unfolding n_def by (rule three_not_pow2)
  with le_i have lt_i2: "2 ^ nat e + 1 \<le> n" by simp
  have m_lt: "m < 2 ^ nat e"
  proof -
    have "(2::int) ^ nat (e + 1) = 2 * 2 ^ nat e" using e0 by (simp add: nat_add_distrib)
    with lt_i have "3 * m < 2 * 2 ^ nat e" by (simp add: n_def)
    then show ?thesis using assms(1) by linarith
  qed
  have m53: "(of_int m :: rat) / 2 ^ 53 < 1"
  proof -
    have "m < 2 ^ 53" using assms by simp
    then have "(of_int m :: rat) < of_int (2 ^ 53)" using of_int_less_iff by blast
    then show ?thesis by simp
  qed
  have m53': "(0::rat) < of_int m / 2 ^ 53" using assms(1) by simp
  have x0: "0 < x"
  proof -
    have "(1::rat) \<le> of_int n" using n0 by (simp add: int_one_le_iff_zero_less)
    then show ?thesis using m53 by (simp add: xn)
  qed
  have xl: "2 powi e \<le> x"
  proof -
    have "(of_int (2 ^ nat e + 1) :: rat) \<le> of_int n" using lt_i2 of_int_le_iff by blast
    then show ?thesis unfolding pe xn using m53 by simp
  qed
  have xu: "x < 2 powi (e + 1)" using b(2) m53' by (simp add: xn)
  define N where "N = n * 2 ^ nat (52 - e)"
  have p52: "(2::rat) powi (52 - e) = of_int (2 ^ nat (52 - e))"
    using e52 by (simp add: power_int_def)
  define d :: rat where "d = of_int m / 2 ^ 53 * 2 powi (52 - e)"
  have inv: "(2::rat) powi (52 - e) = inverse (2 powi (e - 52))"
    using power_int_minus[of "2::rat" "e - 52"] by simp
  have "x / 2 powi (e - 52) = x * 2 powi (52 - e)"
    by (simp add: inv divide_inverse)
  also have "\<dots> = of_int n * 2 powi (52 - e) - d"
    by (simp add: xn d_def algebra_simps)
  also have "of_int n * 2 powi (52 - e) = (of_int N :: rat)"
    by (simp only: N_def p52 of_int_mult)
  finally have q: "x / 2 powi (e - 52) = of_int N - d" .
  have d0: "0 < d" using m53' by (simp add: d_def)
  have dh: "d < 1 / 2"
  proof -
    have "d = of_int m / (2 * 2 powi e)" by (simp add: d_def power_int_diff field_simps)
    also have "\<dots> < of_int (2 ^ nat e) / (2 * 2 powi e)"
      using m_lt by (intro divide_strict_right_mono) (simp_all only: of_int_less_iff zero_less_mult_iff zero_less_power_int, simp)
    also have "\<dots> = 1 / 2" by (simp add: pe)
    finally show ?thesis .
  qed
  have r: "round_half_even (x / 2 powi (e - 52)) = N"
    unfolding q using d0 dh by (intro rhe_near) auto
  have "fl x = of_int N * 2 powi (e - 52)"
    using fl_binade[OF x0 xl xu] by (simp only: r)
  also have "\<dots> = of_int n * (2 powi (52 - e) * 2 powi (e - 52))"
    by (simp only: N_def p52 of_int_mult mult.assoc)
  also have "(2::rat) powi (52 - e) * 2 powi (e - 52) = 1"
    by (simp flip: power_int_add)
  finally show ?thesis by (simp add: x_def n_def)
qed

section \<open>Readiness score\<close>













section \<open>Points in exact arithmetic\<close>

lemma rhe_bounds: "\<lfloor>q\<rfloor> \<le> round_half_even q \<and> round_half_even q \<le> \<lfloor>q\<rfloor> + 1"
  by (simp add: round_half_even_def Let_def)

lemma fl_pow2: "fl (2 powi k) = 2 powi k"
proof -
  have q: "(2::rat) powi k / 2 powi (k - 52) = of_int (2 ^ 52)"
    using power_int_diff[of "2::rat" k "k - 52"] by simp
  have "fl (2 powi k) = of_int (round_half_even (2 powi k / 2 powi (k - 52))) * 2 powi (k - 52)"
    by (rule fl_binade) (simp_all add: power_int_strict_increasing)
  also have "\<dots> = of_int (2 ^ 52) * 2 powi (k - 52)"
    by (simp only: q rhe_of_int)
  also have "\<dots> = 2 powi k"
    using power_int_add[of "2::rat" 52 "k - 52"] by simp
  finally show ?thesis .
qed

lemma fl_idem:
  assumes "0 < x"
  shows "fl (fl x) = fl x"
proof -
  define e where "e = ilog2 x"
  define u :: rat where "u = 2 powi (e - 52)"
  define q where "q = x / u"
  define n where "n = round_half_even q"
  have u0: "0 < u" by (simp add: u_def)
  have b: "2 powi e \<le> x" "x < 2 powi (e + 1)"
    using ilog2_bounds[OF assms] by (simp_all add: e_def)
  have pe: "(2::rat) powi e = 2 ^ 52 * u"
    using power_int_add[of "2::rat" 52 "e - 52"] by (simp add: u_def)
  have pe1: "(2::rat) powi (e + 1) = 2 ^ 53 * u"
    using power_int_add[of "2::rat" 53 "e - 52"] by (simp add: u_def add.commute)
  have q1: "2 ^ 52 \<le> q"
  proof -
    from b(1) have "2 ^ 52 * u \<le> x" by (simp only: pe)
    then show ?thesis using u0 by (simp add: q_def field_simps)
  qed
  have q2: "q < 2 ^ 53"
  proof -
    from b(2) have "x < 2 ^ 53 * u" by (simp only: pe1)
    then show ?thesis using u0 by (simp add: q_def field_simps)
  qed
  have "(2::int) ^ 52 \<le> \<lfloor>q\<rfloor>" using q1 by (simp add: le_floor_iff)
  then have n1: "2 ^ 52 \<le> n" using rhe_bounds[of q] unfolding n_def by linarith
  have "\<lfloor>q\<rfloor> < 2 ^ 53" using q2 by (simp add: floor_less_iff)
  then have n2: "n \<le> 2 ^ 53" using rhe_bounds[of q] unfolding n_def by linarith
  have y: "fl x = of_int n * u"
    using fl_pos[OF assms] by (simp add: e_def[symmetric] u_def[symmetric] q_def n_def)
  have rn1: "(2::rat) ^ 52 \<le> of_int n"
    using n1 of_int_le_iff[of "2 ^ 52" n, where 'a = rat] by simp
  have y0: "0 < of_int n * u" using rn1 u0 by (simp add: zero_less_mult_iff)
  have yl: "2 powi e \<le> of_int n * u" unfolding pe using rn1 u0 by simp
  show ?thesis
  proof (cases "n = 2 ^ 53")
    case True
    have v: "of_int n * u = 2 powi (e + 1)" by (simp add: True pe1)
    show ?thesis unfolding y v by (rule fl_pow2)
  next
    case False
    with n2 have "n < 2 ^ 53" by simp
    then have "(of_int n :: rat) < 2 ^ 53"
      using of_int_less_iff[of n "2 ^ 53", where 'a = rat] by simp
    then have yu: "of_int n * u < 2 powi (e + 1)" unfolding pe1 using u0 by simp
    have "fl (of_int n * u) = of_int (round_half_even (of_int n * u / 2 powi (e - 52))) * 2 powi (e - 52)"
      by (rule fl_binade[OF y0 yl yu])
    also have "of_int n * u / 2 powi (e - 52) = of_int n" using u0 by (simp add: u_def)
    finally show ?thesis by (simp add: y rhe_of_int u_def)
  qed
qed

lemma six_fifths_gap: "fl (6 / 5) = 6 / 5 - 1 / (5 * 2 ^ 52)"
  by (simp add: fl_six_fifths)

lemma floor_times_six_fifths:
  assumes "0 < j" "j < 2 ^ 47"
  shows "\<lfloor>fl (of_int j / 2 * fl (6 / 5))\<rfloor> = (3 * j) div 5"
proof (cases "5 dvd j")
  case True
  then obtain m where m: "j = 5 * m" by (auto simp: dvd_def)
  have m0: "0 < m" using assms(1) m by simp
  have m1: "3 * m < 2 ^ 53" using assms(2) m by simp
  have "fl (of_int j / 2 * fl (6 / 5)) = of_int (3 * m)"
    unfolding m by (rule fl_times_M_exact[OF m0 m1])
  then have "\<lfloor>fl (of_int j / 2 * fl (6 / 5))\<rfloor> = 3 * m"
    by (simp only: floor_of_int)
  then show ?thesis by (simp add: m)
next
  case False
  define n where "n = (3 * j) div 5"
  define r where "r = (3 * j) mod 5"
  have r1: "1 \<le> r" "r \<le> 4"
    unfolding r_def using False by presburger+
  have "3 * j = 5 * n + r" by (simp add: n_def r_def)
  then have "(of_int (3 * j) :: rat) = of_int (5 * n + r)" by simp
  then have e: "3 * (of_int j :: rat) = 5 * of_int n + of_int r" by simp
  define J :: rat where "J = of_int j"
  define N :: rat where "N = of_int n"
  define R :: rat where "R = of_int r"
  have e': "3 * J = 5 * N + R" using e by (simp add: J_def N_def R_def)
  have R1: "1 \<le> R" "R \<le> 4" using r1 by (simp_all add: R_def)
  have J0: "0 < J" using assms(1) by (simp add: J_def)
  have "(of_int j :: rat) < of_int (2 ^ 47)" using assms(2) of_int_less_iff by blast
  then have J1: "J < 140737488355328" by (simp add: J_def)
  define x where "x = J / 2 * fl (6 / 5)"
  have xe: "x = 3 * J / 5 - J / 45035996273704960"
    by (simp add: x_def six_fifths_gap field_simps)
  have x0: "0 < x" unfolding xe using J0 by simp
  define z where "z = fl x"
  have er: "\<bar>z - x\<bar> \<le> x / 9007199254740992"
    using fl_err_rel[OF x0] by (simp add: z_def)
  have lo: "N + 1 / 5 - 1 / 320 \<le> x" using xe e' R1 J0 J1 by linarith
  have hi: "x \<le> N + 4 / 5" using xe e' R1 J0 J1 by linarith
  have sm: "x / 9007199254740992 \<le> 1 / 64" using xe J0 J1 by linarith
  have "N \<le> z \<and> z < N + 1" using er lo hi sm by linarith
  then have "\<lfloor>z\<rfloor> = n" by (intro floor_unique) (simp_all add: N_def)
  then show ?thesis by (simp add: z_def x_def J_def n_def)
qed

lemma floor_times_six_fifths_twice:
  assumes "0 < d" "d < 2 ^ 45"
  shows "\<lfloor>fl (fl (of_int d * fl (6 / 5)) * fl (6 / 5))\<rfloor> = (36 * d) div 25"
proof (cases "25 dvd d")
  case True
  then obtain i where i: "d = 25 * i" by (auto simp: dvd_def)
  have i0: "0 < i" using assms(1) i by simp
  have i1: "i < 2 ^ 45" using assms(2) i by simp
  have "fl (of_int (5 * (10 * i)) / 2 * fl (6 / 5)) = of_int (3 * (10 * i))"
    by (rule fl_times_M_exact) (use i0 i1 in simp_all)
  moreover have "(of_int (5 * (10 * i)) / 2 :: rat) = of_int d" by (simp add: i)
  ultimately have y: "fl (of_int d * fl (6 / 5)) = of_int (30 * i)" by simp
  have "fl (of_int (5 * (12 * i)) / 2 * fl (6 / 5)) = of_int (3 * (12 * i))"
    by (rule fl_times_M_exact) (use i0 i1 in simp_all)
  moreover have "(of_int (5 * (12 * i)) / 2 :: rat) = of_int (30 * i)" by simp
  ultimately have "fl (of_int (30 * i) * fl (6 / 5)) = of_int (36 * i)" by simp
  then have "\<lfloor>fl (fl (of_int d * fl (6 / 5)) * fl (6 / 5))\<rfloor> = 36 * i"
    by (simp only: y floor_of_int)
  then show ?thesis by (simp add: i)
next
  case False
  define n where "n = (36 * d) div 25"
  define r where "r = (36 * d) mod 25"
  have "r \<noteq> 0"
  proof
    assume "r = 0"
    then have "25 dvd 36 * d" by (simp add: r_def dvd_eq_mod_eq_0)
    then have b: "25 dvd 9 * (36 * d)" by (rule dvd_mult)
    have a: "25 dvd 13 * (25 * d)" by simp
    from a b have "25 dvd 13 * (25 * d) - 9 * (36 * d)" by (rule dvd_diff)
    moreover have "13 * (25 * d) - 9 * (36 * d) = d" by simp
    ultimately show False using False by simp
  qed
  moreover have "0 \<le> r" "r < 25" by (simp_all add: r_def)
  ultimately have r1: "1 \<le> r" "r \<le> 24" by simp_all
  have "36 * d = 25 * n + r" by (simp add: n_def r_def)
  then have "(of_int (36 * d) :: rat) = of_int (25 * n + r)" by simp
  then have e: "36 * (of_int d :: rat) = 25 * of_int n + of_int r" by simp
  define D :: rat where "D = of_int d"
  define N :: rat where "N = of_int n"
  define R :: rat where "R = of_int r"
  have e': "36 * D = 25 * N + R" using e by (simp add: D_def N_def R_def)
  have R1: "1 \<le> R" "R \<le> 24" using r1 by (simp_all add: R_def)
  have D0: "1 \<le> D" using assms(1) by (simp add: D_def int_one_le_iff_zero_less)
  have "(of_int d :: rat) < of_int (2 ^ 45)" using assms(2) of_int_less_iff by blast
  then have D1: "D < 35184372088832" by (simp add: D_def)
  define x1 where "x1 = D * fl (6 / 5)"
  have xe1: "x1 = 6 * D / 5 - D / 22517998136852480"
    by (simp add: x1_def six_fifths_gap field_simps)
  have x10: "0 < x1" unfolding xe1 using D0 by linarith
  define y1 where "y1 = fl x1"
  have er1: "\<bar>y1 - x1\<bar> \<le> x1 / 9007199254740992"
    using fl_err_rel[OF x10] by (simp add: y1_def)
  have b1: "\<bar>y1 - 6 * D / 5\<bar> \<le> 1 / 160" using er1 xe1 D0 D1 by linarith
  have y10: "0 < y1" using b1 D0 by linarith
  define x2 where "x2 = y1 * fl (6 / 5)"
  have xe2: "x2 = 6 * y1 / 5 - y1 / 22517998136852480"
    by (simp add: x2_def six_fifths_gap field_simps)
  have x20: "0 < x2" unfolding xe2 using y10 by linarith
  define z where "z = fl x2"
  have er2: "\<bar>z - x2\<bar> \<le> x2 / 9007199254740992"
    using fl_err_rel[OF x20] by (simp add: z_def)
  have b2: "\<bar>x2 - 36 * D / 25\<bar> \<le> 1 / 100" using xe2 b1 D0 D1 by linarith
  have b3: "x2 / 9007199254740992 \<le> 1 / 100" using b2 D0 D1 by linarith
  have "N \<le> z \<and> z < N + 1" using er2 b2 b3 e' R1 by linarith
  then have "\<lfloor>z\<rfloor> = n" by (intro floor_unique) (simp_all add: N_def)
  then show ?thesis by (simp add: z_def x2_def y1_def x1_def D_def n_def)
qed

lemma float_constants:
  "float_literal 2 = 2" "float_literal (15 / 10) = 3 / 2" "float_literal (12 / 10) = fl (6 / 5)"
  "float_literal 1 = 1" "float_of_int (1 + 0) = 1"
  "fadd (float_of_int 1) (float_literal (2 / 10)) = fl (6 / 5)"
  by code_simp+

lemma fl_of_int_small:
  assumes "0 < d" "d < 2 ^ 45"
  shows "fl (of_int d) = of_int d" "fl (of_int d * 2) = of_int d * 2"
    "fl (of_int d * (3 / 2)) = of_int d * (3 / 2)"
proof -
  have t1: "(of_int d :: rat) = of_int (2 * d) / 2" by simp
  have t2: "(of_int d :: rat) * 2 = of_int (4 * d) / 2" by simp
  have t3: "(of_int d :: rat) * (3 / 2) = of_int (3 * d) / 2" by simp
  have "fl (of_int (2 * d) / 2) = of_int (2 * d) / 2"
    by (rule fl_half_int) (use assms in simp_all)
  then show "fl (of_int d) = of_int d" by (simp only: t1[symmetric])
  have "fl (of_int (4 * d) / 2) = of_int (4 * d) / 2"
    by (rule fl_half_int) (use assms in simp_all)
  then show "fl (of_int d * 2) = of_int d * 2" by (simp only: t2[symmetric])
  have "fl (of_int (3 * d) / 2) = of_int (3 * d) / 2"
    by (rule fl_half_int) (use assms in simp_all)
  then show "fl (of_int d * (3 / 2)) = of_int d * (3 / 2)" by (simp only: t3[symmetric])
qed

lemma py_int_nonneg: "0 \<le> x \<Longrightarrow> py_int x = \<lfloor>x\<rfloor>"
  by (simp add: py_int_def)

lemma floor_fl_products:
  assumes "0 < d" "d < 2 ^ 45"
  shows "\<lfloor>fl (of_int d * fl (6 / 5))\<rfloor> = (6 * d) div 5"
    and "\<lfloor>fl (of_int d * 2 * fl (6 / 5))\<rfloor> = (12 * d) div 5"
    and "\<lfloor>fl (of_int d * (3 / 2) * fl (6 / 5))\<rfloor> = (9 * d) div 5"
proof -
  have t1: "(of_int d :: rat) = of_int (2 * d) / 2" by simp
  have t2: "(of_int d :: rat) * 2 = of_int (4 * d) / 2" by simp
  have t3: "(of_int d :: rat) * (3 / 2) = of_int (3 * d) / 2" by simp
  have "\<lfloor>fl (of_int (2 * d) / 2 * fl (6 / 5))\<rfloor> = (3 * (2 * d)) div 5"
    by (rule floor_times_six_fifths) (use assms in simp_all)
  then have "\<lfloor>fl (of_int d * fl (6 / 5))\<rfloor> = (3 * (2 * d)) div 5"
    by (simp only: t1[symmetric])
  then show "\<lfloor>fl (of_int d * fl (6 / 5))\<rfloor> = (6 * d) div 5" by simp
  have "\<lfloor>fl (of_int (4 * d) / 2 * fl (6 / 5))\<rfloor> = (3 * (4 * d)) div 5"
    by (rule floor_times_six_fifths) (use assms in simp_all)
  then have "\<lfloor>fl (of_int d * 2 * fl (6 / 5))\<rfloor> = (3 * (4 * d)) div 5"
    by (simp only: t2[symmetric])
  then show "\<lfloor>fl (of_int d * 2 * fl (6 / 5))\<rfloor> = (12 * d) div 5" by simp
  have "\<lfloor>fl (of_int (3 * d) / 2 * fl (6 / 5))\<rfloor> = (3 * (3 * d)) div 5"
    by (rule floor_times_six_fifths) (use assms in simp_all)
  then have "\<lfloor>fl (of_int d * (3 / 2) * fl (6 / 5))\<rfloor> = (3 * (3 * d)) div 5"
    by (simp only: t3[symmetric])
  then show "\<lfloor>fl (of_int d * (3 / 2) * fl (6 / 5))\<rfloor> = (9 * d) div 5" by simp
qed

lemma floor_scale: "\<lfloor>(of_int d :: rat) * (of_int p / of_int q)\<rfloor> = (p * d) div q"
proof -
  have "(of_int d :: rat) * (of_int p / of_int q) = of_int (p * d) / of_int q" by simp
  then show ?thesis by (simp only: floor_divide_of_int_eq)
qed

lemma exact_points_plain:
  assumes "quality_bonus focus = 0"
  shows "exact_points d focus streak =
           (if 30 \<le> streak then 2 * d else if 7 \<le> streak then (3 * d) div 2
            else if 3 \<le> streak then (6 * d) div 5 else d)"
  unfolding exact_points_def assms streak_multiplier_def
  using floor_scale[of d 2 1] floor_scale[of d 3 2] floor_scale[of d 6 5] by simp

lemma exact_points_bonus:
  assumes "quality_bonus focus = 1 / 5"
  shows "exact_points d focus streak =
           (if 30 \<le> streak then (12 * d) div 5 else if 7 \<le> streak then (9 * d) div 5
            else if 3 \<le> streak then (36 * d) div 25 else (6 * d) div 5)"
  unfolding exact_points_def assms streak_multiplier_def
  using floor_scale[of d 12 5] floor_scale[of d 9 5] floor_scale[of d 36 25]
    floor_scale[of d 6 5] by (simp add: mult.commute)

lemma calculate_points_unfolded:
  "calculate_points s u =
     (let scaled = fl (fl (of_int (duration_minutes s))
                       * (if 30 \<le> streak_count u then 2
                          else if 7 \<le> streak_count u then 3 / 2
                          else if 3 \<le> streak_count u then fl (6 / 5) else 1))
      in if truthy (focus_rating s) \<and> 4 \<le> the (focus_rating s)
         then py_int (fl (scaled * fl (6 / 5)))
         else py_int (fl (scaled * 1)))"
  unfolding calculate_points_def Let_def float_constants
  unfolding fmul_def float_of_int_def
  by (rule refl)

lemma high_focus_bonus:
  "quality_bonus focus = (if truthy focus \<and> 4 \<le> the focus then 1 / 5 else 0)"
  by (auto simp: quality_bonus_def truthy_def split: option.splits)

lemma scaled_values:
  assumes "0 < d" "d < 2 ^ 45"
  shows "py_int (fl (of_int d * 2 * 1)) = 2 * d"
    and "py_int (fl (of_int d * (3 / 2) * 1)) = (3 * d) div 2"
    and "py_int (fl (fl (of_int d * fl (6 / 5)) * 1)) = (6 * d) div 5"
    and "py_int (fl (of_int d * 1 * 1)) = d"
    and "py_int (fl (of_int d * 2 * fl (6 / 5))) = (12 * d) div 5"
    and "py_int (fl (of_int d * (3 / 2) * fl (6 / 5))) = (9 * d) div 5"
    and "py_int (fl (fl (of_int d * fl (6 / 5)) * fl (6 / 5))) = (36 * d) div 25"
    and "py_int (fl (of_int d * 1 * fl (6 / 5))) = (6 * d) div 5"
proof -
  have D0: "(0::rat) < of_int d" using assms(1) by simp
  have M0: "(0::rat) < fl (6 / 5)" by (simp add: fl_six_fifths)
  have x0: "(0::rat) < of_int d * fl (6 / 5)" using D0 M0 by (rule mult_pos_pos)
  have nn: "0 \<le> fl x" if "0 \<le> x" for x using that by (rule fl_nonneg)
  have "py_int (fl (of_int d * 2)) = \<lfloor>(of_int d :: rat) * 2\<rfloor>"
    using D0 by (simp only: fl_of_int_small(2)[OF assms]) (simp add: py_int_def)
  then show "py_int (fl (of_int d * 2 * 1)) = 2 * d"
    using floor_scale[of d 2 1] by (simp add: mult.commute)
  have "py_int (fl (of_int d * (3 / 2))) = \<lfloor>(of_int d :: rat) * (3 / 2)\<rfloor>"
    using D0 by (simp only: fl_of_int_small(3)[OF assms]) (simp add: py_int_def)
  then show "py_int (fl (of_int d * (3 / 2) * 1)) = (3 * d) div 2"
    using floor_scale[of d 3 2] by (simp add: mult.commute)
  have "py_int (fl (fl (of_int d * fl (6 / 5)))) = \<lfloor>fl (of_int d * fl (6 / 5))\<rfloor>"
    using nn[of "of_int d * fl (6 / 5)"] x0
    by (simp only: fl_idem[OF x0]) (simp add: py_int_def)
  then show "py_int (fl (fl (of_int d * fl (6 / 5)) * 1)) = (6 * d) div 5"
    by (simp only: mult_1_right floor_fl_products(1)[OF assms])
  have "py_int (fl (of_int d)) = \<lfloor>(of_int d :: rat)\<rfloor>"
    using D0 by (simp only: fl_of_int_small(1)[OF assms]) (simp add: py_int_def)
  then show "py_int (fl (of_int d * 1 * 1)) = d" by simp
  have p: "py_int (fl x) = \<lfloor>fl x\<rfloor>" if "0 \<le> x" for x
    using nn[OF that] by (simp add: py_int_def)
  show "py_int (fl (of_int d * 2 * fl (6 / 5))) = (12 * d) div 5"
    using p[of "of_int d * 2 * fl (6 / 5)"] D0 M0
    by (simp only: floor_fl_products(2)[OF assms]) simp
  show "py_int (fl (of_int d * (3 / 2) * fl (6 / 5))) = (9 * d) div 5"
    using p[of "of_int d * (3 / 2) * fl (6 / 5)"] D0 M0
    by (simp only: floor_fl_products(3)[OF assms]) simp
  have y0: "0 \<le> fl (of_int d * fl (6 / 5)) * fl (6 / 5)"
    using nn[of "of_int d * fl (6 / 5)"] x0 M0 by simp
  show "py_int (fl (fl (of_int d * fl (6 / 5)) * fl (6 / 5))) = (36 * d) div 25"
    using p[OF y0] by (simp only: floor_times_six_fifths_twice[OF assms])
  show "py_int (fl (of_int d * 1 * fl (6 / 5))) = (6 * d) div 5"
    using p[of "of_int d * fl (6 / 5)"] x0
    by (simp only: mult_1_right floor_fl_products(1)[OF assms])
qed

text \<open>
  Claim C2, amended. For every duration from 1 up to (but excluding) \<open>2\<^sup>4\<^sup>5\<close> minutes,
  every focus rating and every streak, \<^verbatim>\<open>calculate_points\<close> returns the floor of
  duration times multiplier times one plus bonus, computed in exact arithmetic: the
  roundings of the three float operations never move the product across an integer.
\<close>

theorem calculate_points_exact_below_2_45:
  assumes "0 < duration_minutes s" and "duration_minutes s < 2 ^ 45"
  shows "calculate_points s u =
           exact_points (duration_minutes s) (focus_rating s) (streak_count u)"
proof -
  have f1: "fl (rat_of_int (duration_minutes s) * 1) = rat_of_int (duration_minutes s) * 1"
    using fl_of_int_small(1)[OF assms] by simp
  note fi = fl_of_int_small[OF assms] f1 simp_thms
  note sv = scaled_values[OF assms]
  consider (a) "30 \<le> streak_count u"
    | (b) "\<not> 30 \<le> streak_count u" "7 \<le> streak_count u"
    | (c) "\<not> 30 \<le> streak_count u" "\<not> 7 \<le> streak_count u" "3 \<le> streak_count u"
    | (d) "\<not> 30 \<le> streak_count u" "\<not> 7 \<le> streak_count u" "\<not> 3 \<le> streak_count u"
    by blast
  then show ?thesis
  proof cases
    case a
    show ?thesis
    proof (cases "truthy (focus_rating s) \<and> 4 \<le> the (focus_rating s)")
      case True
      then have q: "quality_bonus (focus_rating s) = 1 / 5" by (simp add: high_focus_bonus)
      show ?thesis
        by (simp only: exact_points_bonus[OF q] calculate_points_unfolded Let_def a True
              if_True if_False fi sv)
    next
      case False
      then have q: "quality_bonus (focus_rating s) = 0" by (simp add: high_focus_bonus)
      show ?thesis
        by (simp only: exact_points_plain[OF q] calculate_points_unfolded Let_def a False
              if_True if_False fi sv)
    qed
  next
    case b
    show ?thesis
    proof (cases "truthy (focus_rating s) \<and> 4 \<le> the (focus_rating s)")
      case True
      then have q: "quality_bonus (focus_rating s) = 1 / 5" by (simp add: high_focus_bonus)
      show ?thesis
        by (simp only: exact_points_bonus[OF q] calculate_points_unfolded Let_def b True
              if_True if_False fi sv)
    next
      case False
      then have q: "quality_bonus (focus_rating s) = 0" by (simp add: high_focus_bonus)
      show ?thesis
        by (simp only: exact_points_plain[OF q] calculate_points_unfolded Let_def b False
              if_True if_False fi sv)
    qed
  next
    case c
    show ?thesis
    proof (cases "truthy (focus_rating s) \<and> 4 \<le> the (focus_rating s)")
      case True
      then have q: "quality_bonus (focus_rating s) = 1 / 5" by (simp add: high_focus_bonus)
      show ?thesis
        by (simp only: exact_points_bonus[OF q] calculate_points_unfolded Let_def c True
              if_True if_False fi sv)
    next
      case False
      then have q: "quality_bonus (focus_rating s) = 0" by (simp add: high_focus_bonus)
      show ?thesis
        by (simp only: exact_points_plain[OF q] calculate_points_unfolded Let_def c False
              if_True if_False fi sv)
    qed
  next
    case d
    show ?thesis
    proof (cases "truthy (focus_rating s) \<and> 4 \<le> the (focus_rating s)")
      case True
      then have q: "quality_bonus (focus_rating s) = 1 / 5" by (simp add: high_focus_bonus)
      show ?thesis
        by (simp only: exact_points_bonus[OF q] calculate_points_unfolded Let_def d True
              if_True if_False fi sv)
    next
      case False
      then have q: "quality_bonus (focus_rating s) = 0" by (simp add: high_focus_bonus)
      show ?thesis
        by (simp only: exact_points_plain[OF q] calculate_points_unfolded Let_def d False
              if_True if_False fi sv)
    qed
  qed
qed

theorem calculate_points_exact_below_2_45_witness:
  "0 < duration_minutes demo_session \<and> duration_minutes demo_session < 2 ^ 45
   \<and> calculate_points demo_session demo_user_logged =
       exact_points (duration_minutes demo_session) (focus_rating demo_session)
         (streak_count demo_user_logged)
   \<and> exact_points (duration_minutes demo_session) (focus_rating demo_session)
         (streak_count demo_user_logged) = 57"
proof -
  have h1: "0 < duration_minutes demo_session" by code_simp
  have h2: "duration_minutes demo_session < 2 ^ 45" by code_simp
  have v: "exact_points (duration_minutes demo_session) (focus_rating demo_session)
         (streak_count demo_user_logged) = 57" by code_simp
  from calculate_points_exact_below_2_45[OF h1 h2, of demo_user_logged] h1 h2 v
  show ?thesis by simp
qed

text \<open>
  Claim C2 as stated, for every positive duration, fails where the duration is not a
  float: a session of \<open>2\<^sup>5\<^sup>3 + 1\<close> minutes is converted to the float \<open>2\<^sup>5\<^sup>3\<close> before it is
  multiplied, and earns one point less than the exact product.
\<close>

theorem calculate_points_huge_duration_counterexample:
  "calculate_points demo_session_huge demo_user = 9007199254740992
   \<and> exact_points (duration_minutes demo_session_huge) (focus_rating demo_session_huge)
         (streak_count demo_user) = 9007199254740993
   \<and> calculate_points demo_session_huge demo_user \<noteq>
       exact_points (duration_minutes demo_session_huge) (focus_rating demo_session_huge)
         (streak_count demo_user)"
proof -
  have a: "calculate_points demo_session_huge demo_user = 9007199254740992" by code_simp
  have b: "exact_points (duration_minutes demo_session_huge) (focus_rating demo_session_huge)
         (streak_count demo_user) = 9007199254740993" by code_simp
  from a b show ?thesis by simp
qed

end
